theory Spec2Isabelle
  imports Complex_Main "HOL-Library.Multiset" "HOL-Library.Product_Lexorder"
begin

section \<open>Strings\<close>

text \<open>
  JavaScript strings are modelled as lists of ASCII characters. The white space
  recognised by \<^verbatim>\<open>String.prototype.trim\<close> and by the regular-expression class
  \<^verbatim>\<open>\s\<close> is, within ASCII, the six characters TAB, LF, VT, FF, CR and SPACE;
  \<^verbatim>\<open>toUpperCase\<close> and \<^verbatim>\<open>toLowerCase\<close> act on the letters a-z and A-Z.
\<close>

definition isSpaceChar :: "char \<Rightarrow> bool" where
  "isSpaceChar c = ((of_char c :: nat) \<in> {9, 10, 11, 12, 13, 32})"

definition isDigitChar :: "char \<Rightarrow> bool" where
  "isDigitChar c = (48 \<le> (of_char c :: nat) \<and> (of_char c :: nat) \<le> 57)"

definition toUpperChar :: "char \<Rightarrow> char" where
  "toUpperChar c =
     (if 97 \<le> (of_char c :: nat) \<and> (of_char c :: nat) \<le> 122
      then char_of ((of_char c :: nat) - 32) else c)"

definition toLowerChar :: "char \<Rightarrow> char" where
  "toLowerChar c =
     (if 65 \<le> (of_char c :: nat) \<and> (of_char c :: nat) \<le> 90
      then char_of ((of_char c :: nat) + 32) else c)"

definition toUpperCase :: "string \<Rightarrow> string" where
  "toUpperCase s = map toUpperChar s"

definition toLowerCase :: "string \<Rightarrow> string" where
  "toLowerCase s = map toLowerChar s"

definition trim :: "string \<Rightarrow> string" where
  "trim s = rev (dropWhile isSpaceChar (rev (dropWhile isSpaceChar s)))"

text \<open>\<^verbatim>\<open>s.replace(/\s+/g, '')\<close>: every run of white space is deleted.\<close>

definition removeWhitespace :: "string \<Rightarrow> string" where
  "removeWhitespace s = filter (\<lambda>c. \<not> isSpaceChar c) s"

section \<open>Employee identifiers\<close>

text \<open>
  \<^verbatim>\<open>normalized.replace(/^LYLB/i, 'AYLB')\<close>: the pattern is anchored at the start
  and matches the four letters in either case.
\<close>

definition replaceLYLB :: "string \<Rightarrow> string" where
  "replaceLYLB s =
     (if 4 \<le> length s \<and> toUpperCase (take 4 s) = ''LYLB''
      then ''AYLB'' @ drop 4 s else s)"

definition normalizeEmployeeId :: "string \<Rightarrow> string" where
  "normalizeEmployeeId raw =
     (if raw = [] then []
      else let normalized = removeWhitespace (trim raw);
               normalized = replaceLYLB normalized
           in toUpperCase normalized)"



section \<open>Numbers and their renderings\<close>

text \<open>
  JavaScript numbers are modelled as exact reals (integers where the source only
  handles integers). \<^verbatim>\<open>Math.round\<close> rounds to the nearest integer, halves upwards.
\<close>

definition jsRound :: "real \<Rightarrow> int" where
  "jsRound x = \<lfloor>x + 1 / 2\<rfloor>"

definition digitChar :: "nat \<Rightarrow> char" where
  "digitChar d = char_of (48 + d)"

fun showNat :: "nat \<Rightarrow> string" where
  "showNat n = (if n < 10 then [digitChar n] else showNat (n div 10) @ [digitChar (n mod 10)])"

declare showNat.simps [simp del]

text \<open>\<^verbatim>\<open>String(n)\<close> for an integer \<open>n\<close>.\<close>

definition showInt :: "int \<Rightarrow> string" where
  "showInt i = (if i < 0 then CHR ''-'' # showNat (nat (- i)) else showNat (nat i))"

definition padStart :: "nat \<Rightarrow> char \<Rightarrow> string \<Rightarrow> string" where
  "padStart n c s = replicate (n - length s) c @ s"

definition digitVal :: "char \<Rightarrow> nat" where
  "digitVal c = (of_char c :: nat) - 48"

text \<open>The value of a string of decimal digits (unary \<^verbatim>\<open>+\<close> on a captured group).\<close>

definition digitsToNat :: "string \<Rightarrow> nat" where
  "digitsToNat ds = foldl (\<lambda>acc c. 10 * acc + digitVal c) 0 ds"

text \<open>
  \<^verbatim>\<open>parseInt(s)\<close> in base ten: leading white space, an optional sign, then the
  longest run of digits; \<open>None\<close> stands for \<^verbatim>\<open>NaN\<close>.
\<close>

definition parseInt :: "string \<Rightarrow> int option" where
  "parseInt s =
     (let t = dropWhile isSpaceChar s;
          neg = (t \<noteq> [] \<and> hd t = CHR ''-'');
          u = (if t \<noteq> [] \<and> (hd t = CHR ''-'' \<or> hd t = CHR ''+'') then tl t else t);
          ds = takeWhile isDigitChar u
      in if ds = [] then None
         else Some (if neg then - int (digitsToNat ds) else int (digitsToNat ds)))"

section \<open>The host environment\<close>

text \<open>
  A \<^verbatim>\<open>Date\<close> is modelled by the instant it denotes: an integer number of
  milliseconds since the epoch (\<^verbatim>\<open>getTime()\<close>); invalid dates are \<open>None\<close> where the
  source can meet one. An ISO-8601 string produced by \<^verbatim>\<open>toISOString()\<close> is
  modelled by the same instant. The built-ins of the JavaScript runtime whose
  results depend on the time zone of the host or on its number parser are
  parameters of the model, collected in a record.
\<close>

record host =
  getFullYear :: "int \<Rightarrow> int"
  getMonth :: "int \<Rightarrow> int"
  getDate :: "int \<Rightarrow> int"
  getHours :: "int \<Rightarrow> int"
  getMinutes :: "int \<Rightarrow> int"
  newDate :: "int \<Rightarrow> int \<Rightarrow> int \<Rightarrow> int \<Rightarrow> int \<Rightarrow> int \<Rightarrow> int"
  parseDate :: "string \<Rightarrow> int option"
  endOfDay :: "int \<Rightarrow> int"
  parseFloat :: "string \<Rightarrow> real option"
  numberToString :: "real \<Rightarrow> string"

text \<open>
  \<open>newDate y m d hh mm ss\<close> is \<^verbatim>\<open>new Date(y, m, d, hh, mm, ss).getTime()\<close>,
  \<open>parseDate s\<close> is \<^verbatim>\<open>new Date(s)\<close> (\<open>None\<close> for an invalid date),
  \<open>endOfDay t\<close> is the effect of \<^verbatim>\<open>setHours(23, 59, 59, 999)\<close>,
  \<open>parseFloat s\<close> is \<open>None\<close> for \<^verbatim>\<open>NaN\<close>, and \<open>numberToString\<close> renders a
  number inside a template literal.
\<close>

section \<open>Data model\<close>

record config =
  WORK_START_HOUR :: int
  WORK_START_MINUTE :: int
  DISTANCE_THRESHOLD_COMPLIANT :: real
  DISTANCE_THRESHOLD_WARNING :: real
  OPEN_SESSION_WARNING_HOURS :: real
  OPEN_SESSION_CRITICAL_HOURS :: real
  LATE_GRACE_PERIOD_MINUTES :: int

definition CONFIG :: config where
  "CONFIG = \<lparr> WORK_START_HOUR = 9, WORK_START_MINUTE = 0,
      DISTANCE_THRESHOLD_COMPLIANT = 50, DISTANCE_THRESHOLD_WARNING = 100,
      OPEN_SESSION_WARNING_HOURS = 8, OPEN_SESSION_CRITICAL_HOURS = 12,
      LATE_GRACE_PERIOD_MINUTES = 15 \<rparr>"

datatype PunchType = PunchIn | PunchOut

record RawPunchRecord =
  name :: string
  employeeId :: string
  punchType :: PunchType
  location :: string
  timestamp :: int
  manualLocation :: string
  distanceMeters :: "real option"

record KPIData =
  activeEmployeesCount :: nat
  totalWorkingHoursToday :: real
  onSiteCompliancePct :: int
  exceptionsCount :: nat
  serverTimestamp :: int

record HourlyActivity =
  hour :: string
  punchIn :: nat
  punchOut :: nat

record EmployeeWorkload =
  wl_employeeId :: string
  wl_name :: string
  totalHours :: real

datatype ComplianceStatus = Compliant | Warning | Breach | Unknown

record EmployeeLocation =
  loc_employeeId :: string
  loc_name :: string
  lat :: real
  long :: real
  status :: ComplianceStatus
  loc_timestamp :: int
  distance :: "real option"

datatype ExceptionType = OpenSession | PunchOutWithoutIn | LocationBreach | LocationMissing

datatype ExceptionSeverity = SevWarning | SevCritical

datatype ExceptionStatus = StatusOpen | StatusResolved | StatusDismissed

record Exception =
  exc_id :: string
  exc_employeeId :: string
  exc_name :: string
  exc_type :: ExceptionType
  severity :: ExceptionSeverity
  exc_status :: ExceptionStatus
  exc_timestamp :: int
  locationText :: string
  exc_distance :: "real option"
  exc_notes :: string

record Shift =
  shiftStart :: int
  shiftEnd :: "int option"
  durationMinutes :: "int option"
  distanceStart :: "real option"
  distanceEnd :: "real option"
  onSiteStart :: bool
  onSiteEnd :: "bool option"

record Employee =
  emp_id :: string
  emp_name :: string

subsection \<open>Insertion-ordered maps\<close>

text \<open>
  A JavaScript \<^verbatim>\<open>Map\<close> iterates in insertion order, and the derivations depend on
  that order: it is an association list with distinct keys, \<^verbatim>\<open>set\<close> replacing the
  value of a key that is present and appending a new key at the end.
\<close>

definition mapGet :: "('k \<times> 'v) list \<Rightarrow> 'k \<Rightarrow> 'v option" where
  "mapGet m k = map_of m k"

definition mapHas :: "('k \<times> 'v) list \<Rightarrow> 'k \<Rightarrow> bool" where
  "mapHas m k = (map_of m k \<noteq> None)"

fun mapSet :: "('k \<times> 'v) list \<Rightarrow> 'k \<Rightarrow> 'v \<Rightarrow> ('k \<times> 'v) list" where
  "mapSet [] k v = [(k, v)]"
| "mapSet ((k', v') # m) k v = (if k' = k then (k, v) # m else (k', v') # mapSet m k v)"

text \<open>
  The grouping idiom of the source,
  \<^verbatim>\<open>if (!m.has(k)) m.set(k, []); m.get(k).push(x)\<close>.
\<close>

definition pushTo :: "('k \<times> 'v list) list \<Rightarrow> 'k \<Rightarrow> 'v \<Rightarrow> ('k \<times> 'v list) list" where
  "pushTo m k x =
     (let m' = (if \<not> mapHas m k then mapSet m k [] else m)
      in case mapGet m' k of Some xs \<Rightarrow> mapSet m' k (xs @ [x]) | None \<Rightarrow> m')"

definition groupByEmployee :: "RawPunchRecord list \<Rightarrow> (string \<times> RawPunchRecord list) list" where
  "groupByEmployee punches = foldl (\<lambda>m punch. pushTo m (employeeId punch) punch) [] punches"

text \<open>\<^verbatim>\<open>[...xs].sort((a, b) => a.timestamp.getTime() - b.timestamp.getTime())\<close>: a stable sort.\<close>

definition sortByTimestamp :: "RawPunchRecord list \<Rightarrow> RawPunchRecord list" where
  "sortByTimestamp xs = sort_key timestamp xs"

section \<open>Processing the sheet\<close>

record ProcessedData =
  punches :: "RawPunchRecord list"
  employees :: "(string \<times> Employee) list"
  punchesByEmployee :: "(string \<times> RawPunchRecord list) list"
  punchesByDate :: "(string \<times> RawPunchRecord list) list"
  todayPunches :: "RawPunchRecord list"

definition formatDateKey :: "host \<Rightarrow> int \<Rightarrow> string" where
  "formatDateKey h date =
     showInt (getFullYear h date) @ ''-'' @
     padStart 2 (CHR ''0'') (showInt (getMonth h date + 1)) @ ''-'' @
     padStart 2 (CHR ''0'') (showInt (getDate h date))"

text \<open>The employee map keeps the first name seen unless it is empty or just the identifier.\<close>

definition updateEmployees :: "(string \<times> Employee) list \<Rightarrow> RawPunchRecord \<Rightarrow> (string \<times> Employee) list" where
  "updateEmployees emps rcd =
     (case mapGet emps (employeeId rcd) of
        None \<Rightarrow>
          mapSet emps (employeeId rcd)
            \<lparr> emp_id = employeeId rcd,
              emp_name = (if name rcd \<noteq> [] then name rcd else employeeId rcd) \<rparr>
      | Some existingEmployee \<Rightarrow>
          if emp_name existingEmployee = [] \<and> name rcd \<noteq> []
          then mapSet emps (employeeId rcd) (existingEmployee\<lparr>emp_name := name rcd\<rparr>)
          else if emp_name existingEmployee = emp_id existingEmployee \<and> name rcd \<noteq> []
          then mapSet emps (employeeId rcd) (existingEmployee\<lparr>emp_name := name rcd\<rparr>)
          else emps)"

definition processRecord :: "host \<Rightarrow> string \<Rightarrow> ProcessedData \<Rightarrow> RawPunchRecord \<Rightarrow> ProcessedData" where
  "processRecord h todayStr data rcd =
     (let dateKey = formatDateKey h (timestamp rcd)
      in data\<lparr> employees := updateEmployees (employees data) rcd,
               punchesByEmployee := pushTo (punchesByEmployee data) (employeeId rcd) rcd,
               punchesByDate := pushTo (punchesByDate data) dateKey rcd,
               todayPunches :=
                 (if dateKey = todayStr then todayPunches data @ [rcd] else todayPunches data) \<rparr>)"

text \<open>The argument \<open>now\<close> is the instant \<^verbatim>\<open>new Date()\<close> returns during the call.\<close>

definition processSheetData :: "host \<Rightarrow> int \<Rightarrow> RawPunchRecord list \<Rightarrow> ProcessedData" where
  "processSheetData h now records =
     (let todayStr = formatDateKey h now;
          sortedRecords = sortByTimestamp records
      in foldl (processRecord h todayStr)
           \<lparr> punches = sortedRecords, employees = [], punchesByEmployee = [],
             punchesByDate = [], todayPunches = [] \<rparr>
           sortedRecords)"

text \<open>\<^verbatim>\<open>dateStr || formatDateKey(new Date())\<close>: an absent or empty string selects today.\<close>

definition targetDateOf :: "host \<Rightarrow> int \<Rightarrow> string option \<Rightarrow> string" where
  "targetDateOf h now dateStr =
     (case dateStr of
        Some d \<Rightarrow> if d \<noteq> [] then d else formatDateKey h now
      | None \<Rightarrow> formatDateKey h now)"

definition dayPunchesOf :: "host \<Rightarrow> int \<Rightarrow> ProcessedData \<Rightarrow> string option \<Rightarrow> RawPunchRecord list" where
  "dayPunchesOf h now data dateStr =
     (case mapGet (punchesByDate data) (targetDateOf h now dateStr) of
        Some ps \<Rightarrow> ps
      | None \<Rightarrow> [])"

section \<open>KPI calculations\<close>

text \<open>The inner \<^verbatim>\<open>for\<close> loop: the first index from \<open>start\<close> on that holds a punch out.\<close>

definition findOut :: "RawPunchRecord list \<Rightarrow> nat \<Rightarrow> nat option" where
  "findOut srt start =
     List.find (\<lambda>j. punchType (srt ! j) = PunchOut) [start ..< length srt]"

text \<open>The \<^verbatim>\<open>while\<close> loop of \<^verbatim>\<open>calculateWorkingHours\<close>, with its cursor \<open>i\<close>.\<close>

function pairHours :: "RawPunchRecord list \<Rightarrow> nat \<Rightarrow> real \<times> nat \<Rightarrow> real \<times> nat" where
  "pairHours srt i (totalMinutes, openSessions) =
     (if i < length srt then
        (if punchType (srt ! i) = PunchIn then
           (case findOut srt (i + 1) of
              Some j \<Rightarrow>
                pairHours srt (j + 1)
                  (totalMinutes +
                     real_of_int (timestamp (srt ! j) - timestamp (srt ! i)) / (1000 * 60),
                   openSessions)
            | None \<Rightarrow> pairHours srt (i + 1) (totalMinutes, openSessions + 1))
         else pairHours srt (i + 1) (totalMinutes, openSessions))
      else (totalMinutes, openSessions))"
  by pat_completeness auto
termination
  by (relation "measure (\<lambda>(srt, i, acc). length srt - i)")
     (auto simp add: findOut_def find_Some_iff)

declare pairHours.simps [simp del]

definition calculateWorkingHours :: "RawPunchRecord list \<Rightarrow> real \<times> nat" where
  "calculateWorkingHours ps =
     (let byEmployee = groupByEmployee ps;
          (totalMinutes, openSessions) =
             foldl (\<lambda>acc (empId, empPunches). pairHours (sortByTimestamp empPunches) 0 acc)
               (0, 0) byEmployee
      in (totalMinutes / 60, openSessions))"

definition lateThreshold :: int where
  "lateThreshold =
     WORK_START_HOUR CONFIG * 60 + WORK_START_MINUTE CONFIG + LATE_GRACE_PERIOD_MINUTES CONFIG"

definition punchMinutesOf :: "host \<Rightarrow> RawPunchRecord \<Rightarrow> int" where
  "punchMinutesOf h punch =
     getHours h (timestamp punch) * 60 + getMinutes h (timestamp punch)"

definition countLateArrivals :: "host \<Rightarrow> RawPunchRecord list \<Rightarrow> nat" where
  "countLateArrivals h ps =
     (let punchIns = filter (\<lambda>p. punchType p = PunchIn) ps;
          firstPunchByEmployee =
             foldl (\<lambda>m punch. if \<not> mapHas m (employeeId punch)
                               then mapSet m (employeeId punch) punch else m) [] punchIns
      in length (filter (\<lambda>(empId, punch). punchMinutesOf h punch > lateThreshold)
                   firstPunchByEmployee))"

definition calculateKPIs :: "host \<Rightarrow> int \<Rightarrow> ProcessedData \<Rightarrow> string option \<Rightarrow> KPIData" where
  "calculateKPIs h now data dateStr =
     (let dayPunches = dayPunchesOf h now data dateStr;
          activeEmployeeIds =
             remdups (map employeeId (filter (\<lambda>p. punchType p = PunchIn) dayPunches));
          (totalHours, openSessions) = calculateWorkingHours dayPunches;
          punchesWithDistance = filter (\<lambda>p. distanceMeters p \<noteq> None) dayPunches;
          compliantPunches =
             filter (\<lambda>p. the (distanceMeters p) \<le> DISTANCE_THRESHOLD_COMPLIANT CONFIG)
               punchesWithDistance;
          compliancePct =
             (if length punchesWithDistance > 0
              then jsRound (real (length compliantPunches) / real (length punchesWithDistance) * 100)
              else 100);
          lateArrivals = countLateArrivals h dayPunches;
          locationBreaches =
             length (filter (\<lambda>p. the (distanceMeters p) > DISTANCE_THRESHOLD_WARNING CONFIG)
                       punchesWithDistance);
          exceptionsCount = openSessions + lateArrivals + locationBreaches
      in \<lparr> activeEmployeesCount = length activeEmployeeIds,
           totalWorkingHoursToday = real_of_int (jsRound (totalHours * 10)) / 10,
           onSiteCompliancePct = compliancePct,
           exceptionsCount = exceptionsCount,
           serverTimestamp = now \<rparr>)"

section \<open>Hourly activity\<close>

definition hourLabel :: "int \<Rightarrow> string" where
  "hourLabel hh = padStart 2 (CHR ''0'') (showInt hh) @ '':00''"

text \<open>
  \<^verbatim>\<open>hourlyMap.get(hour)!\<close> is dereferenced without a check: a label that is not
  one of the 24 keys makes the source throw, which is the result \<open>None\<close>.
\<close>

definition countPunch ::
  "host \<Rightarrow> (string \<times> nat \<times> nat) list option \<Rightarrow> RawPunchRecord \<Rightarrow> (string \<times> nat \<times> nat) list option" where
  "countPunch h hourlyMap punch =
     (case hourlyMap of
        None \<Rightarrow> None
      | Some m \<Rightarrow>
          (let hr = hourLabel (getHours h (timestamp punch))
           in case mapGet m hr of
                None \<Rightarrow> None
              | Some (pin, pout) \<Rightarrow>
                  Some (mapSet m hr
                    (if punchType punch = PunchIn then (pin + 1, pout) else (pin, pout + 1)))))"

definition calculateHourlyActivity ::
  "host \<Rightarrow> int \<Rightarrow> ProcessedData \<Rightarrow> string option \<Rightarrow> HourlyActivity list option" where
  "calculateHourlyActivity h now data dateStr =
     (let dayPunches = dayPunchesOf h now data dateStr;
          hourlyMap = foldl (\<lambda>m hh. mapSet m (hourLabel hh) (0, 0)) [] [0 .. 23];
          counted = foldl (countPunch h) (Some hourlyMap) dayPunches
      in map_option
           (\<lambda>m. map (\<lambda>(hr, pin, pout). \<lparr> hour = hr, punchIn = pin, punchOut = pout \<rparr>)
                  (filter (\<lambda>(hr, counts).
                       case parseInt hr of Some hh \<Rightarrow> hh \<ge> 6 \<and> hh \<le> 22 | None \<Rightarrow> False) m))
           counted)"

section \<open>Top workload\<close>

text \<open>\<^verbatim>\<open>xs.slice(0, end)\<close>; a negative \<open>end\<close> counts from the end of the array.\<close>

definition jsSliceFrom0 :: "'a list \<Rightarrow> int \<Rightarrow> 'a list" where
  "jsSliceFrom0 xs endIdx =
     (if endIdx < 0 then take (nat (int (length xs) + endIdx)) xs else take (nat endIdx) xs)"

definition workloadOf ::
  "ProcessedData \<Rightarrow> string \<times> RawPunchRecord list \<Rightarrow> EmployeeWorkload list" where
  "workloadOf data entry =
     (case entry of (empId, empPunches) \<Rightarrow>
        (case mapGet (employees data) empId of
           None \<Rightarrow> []
         | Some employee \<Rightarrow>
             [\<lparr> wl_employeeId = empId, wl_name = emp_name employee,
                totalHours =
                  real_of_int (jsRound (fst (calculateWorkingHours empPunches) * 10)) / 10 \<rparr>]))"

text \<open>
  The list \<open>workloads\<close> before it is sorted, then
  \<^verbatim>\<open>workloads.sort((a, b) => b.totalHours - a.totalHours).slice(0, limit)\<close>; the
  sort is stable. The argument \<open>limitArg\<close> is \<open>None\<close> when the caller leaves the
  limit out, which selects the default 10.
\<close>

definition workloadsOf :: "ProcessedData \<Rightarrow> RawPunchRecord list \<Rightarrow> EmployeeWorkload list" where
  "workloadsOf data dayPunches = concat (map (workloadOf data) (groupByEmployee dayPunches))"

definition calculateTopWorkload ::
  "host \<Rightarrow> int \<Rightarrow> ProcessedData \<Rightarrow> string option \<Rightarrow> int option \<Rightarrow> EmployeeWorkload list" where
  "calculateTopWorkload h now data dateStr limitArg =
     (let limit = (case limitArg of Some l \<Rightarrow> l | None \<Rightarrow> 10);
          dayPunches = dayPunchesOf h now data dateStr;
          workloads = workloadsOf data dayPunches
      in jsSliceFrom0 (sort_key (\<lambda>w. - totalHours w) workloads) limit)"

section \<open>Latest locations\<close>

fun splitOn :: "char \<Rightarrow> string \<Rightarrow> string list" where
  "splitOn c [] = [[]]"
| "splitOn c (x # xs) =
     (if x = c then [] # splitOn c xs
      else (case splitOn c xs of w # ws \<Rightarrow> (x # w) # ws | [] \<Rightarrow> [[x]]))"

definition parseCoordinates :: "host \<Rightarrow> string \<Rightarrow> (real \<times> real) option" where
  "parseCoordinates h locationStr =
     (if locationStr = [] then None
      else let parts = map trim (splitOn (CHR '','') locationStr)
           in if length parts \<ge> 2
              then (case (parseFloat h (parts ! 0), parseFloat h (parts ! 1)) of
                      (Some la, Some lo) \<Rightarrow> Some (la, lo)
                    | _ \<Rightarrow> None)
              else None)"

text \<open>The compliance classification, written inline in \<^verbatim>\<open>calculateLatestLocations\<close>.\<close>

definition complianceStatusOf :: "real option \<Rightarrow> ComplianceStatus" where
  "complianceStatusOf d =
     (case d of
        None \<Rightarrow> Unknown
      | Some x \<Rightarrow>
          if x \<le> DISTANCE_THRESHOLD_COMPLIANT CONFIG then Compliant
          else if x \<le> DISTANCE_THRESHOLD_WARNING CONFIG then Warning
          else Breach)"

definition locationOf ::
  "host \<Rightarrow> ProcessedData \<Rightarrow> string \<times> RawPunchRecord list \<Rightarrow> EmployeeLocation list" where
  "locationOf h data entry =
     (case entry of (empId, empPunches) \<Rightarrow>
        (case mapGet (employees data) empId of
           None \<Rightarrow> []
         | Some employee \<Rightarrow>
             if empPunches = [] then []
             else let latest = last empPunches
                  in case parseCoordinates h (location latest) of
                       None \<Rightarrow> []
                     | Some (la, lo) \<Rightarrow>
                         [\<lparr> loc_employeeId = empId, loc_name = emp_name employee,
                            lat = la, long = lo,
                            status = complianceStatusOf (distanceMeters latest),
                            loc_timestamp = timestamp latest,
                            distance = distanceMeters latest \<rparr>]))"

definition calculateLatestLocations :: "host \<Rightarrow> ProcessedData \<Rightarrow> EmployeeLocation list" where
  "calculateLatestLocations h data = concat (map (locationOf h data) (punchesByEmployee data))"

section \<open>Exceptions\<close>

text \<open>
  The list \<^verbatim>\<open>exceptions\<close> and the counter \<^verbatim>\<open>exceptionId\<close> are threaded through the
  rules as a pair; every \<^verbatim>\<open>push\<close> appends one exception and increments the counter.
\<close>

definition excIdString :: "nat \<Rightarrow> string" where
  "excIdString n = ''EXC'' @ padStart 5 (CHR ''0'') (showNat n)"

definition locationTextOf :: "RawPunchRecord \<Rightarrow> string" where
  "locationTextOf punch = (if manualLocation punch \<noteq> [] then manualLocation punch else ''Unknown'')"

definition lateArrivalCheck ::
  "host \<Rightarrow> string \<Rightarrow> Employee \<Rightarrow> RawPunchRecord list \<Rightarrow> Exception list \<times> nat \<Rightarrow> Exception list \<times> nat" where
  "lateArrivalCheck h empId employee srt st =
     (case st of (excs, exceptionId) \<Rightarrow>
        (case List.find (\<lambda>p. punchType p = PunchIn) srt of
           None \<Rightarrow> (excs, exceptionId)
         | Some firstIn \<Rightarrow>
             (let punchMinutes = punchMinutesOf h firstIn
              in if punchMinutes > lateThreshold then
                   (let minutesLate =
                          punchMinutes - (WORK_START_HOUR CONFIG * 60 + WORK_START_MINUTE CONFIG)
                    in (excs @
                          [\<lparr> exc_id = excIdString exceptionId, exc_employeeId = empId,
                             exc_name = emp_name employee, exc_type = OpenSession,
                             severity = (if minutesLate > 60 then SevCritical else SevWarning),
                             exc_status = StatusOpen, exc_timestamp = timestamp firstIn,
                             locationText = locationTextOf firstIn,
                             exc_distance = distanceMeters firstIn,
                             exc_notes = ''Late arrival by '' @ showInt minutesLate @ '' minutes'' \<rparr>],
                        exceptionId + 1))
                 else (excs, exceptionId))))"

definition hoursOpenOf :: "int \<Rightarrow> RawPunchRecord \<Rightarrow> real" where
  "hoursOpenOf now punch = real_of_int (now - timestamp punch) / (1000 * 60 * 60)"

text \<open>The body of \<^verbatim>\<open>if (!foundOut)\<close>, where \<open>now\<close> is the value of \<^verbatim>\<open>Date.now()\<close>.\<close>

definition openSessionCheck ::
  "int \<Rightarrow> string \<Rightarrow> Employee \<Rightarrow> RawPunchRecord \<Rightarrow> Exception list \<times> nat \<Rightarrow> Exception list \<times> nat" where
  "openSessionCheck now empId employee punch st =
     (case st of (excs, exceptionId) \<Rightarrow>
        (let hoursOpen = hoursOpenOf now punch
         in if hoursOpen \<ge> OPEN_SESSION_WARNING_HOURS CONFIG then
              (excs @
                 [\<lparr> exc_id = excIdString exceptionId, exc_employeeId = empId,
                    exc_name = emp_name employee, exc_type = OpenSession,
                    severity = (if hoursOpen \<ge> OPEN_SESSION_CRITICAL_HOURS CONFIG
                                then SevCritical else SevWarning),
                    exc_status = StatusOpen, exc_timestamp = timestamp punch,
                    locationText = locationTextOf punch,
                    exc_distance = distanceMeters punch,
                    exc_notes = ''Open session for '' @ showInt (jsRound hoursOpen) @
                                '' hours (no punch out)'' \<rparr>],
               exceptionId + 1)
            else (excs, exceptionId)))"

text \<open>The \<^verbatim>\<open>else\<close> branch of the scan: a punch out with no punch in before it.\<close>

definition orphanOutCheck ::
  "string \<Rightarrow> Employee \<Rightarrow> RawPunchRecord list \<Rightarrow> nat \<Rightarrow> Exception list \<times> nat \<Rightarrow> Exception list \<times> nat" where
  "orphanOutCheck empId employee srt i st =
     (case st of (excs, exceptionId) \<Rightarrow>
        (let punch = srt ! i;
             hasPriorIn = list_ex (\<lambda>p. punchType p = PunchIn) (take i srt)
         in if \<not> hasPriorIn then
              (excs @
                 [\<lparr> exc_id = excIdString exceptionId, exc_employeeId = empId,
                    exc_name = emp_name employee, exc_type = PunchOutWithoutIn,
                    severity = SevWarning,
                    exc_status = StatusOpen, exc_timestamp = timestamp punch,
                    locationText = locationTextOf punch,
                    exc_distance = distanceMeters punch,
                    exc_notes = ''Punch out without preceding punch in'' \<rparr>],
               exceptionId + 1)
            else (excs, exceptionId)))"

function scanSessions ::
  "int \<Rightarrow> string \<Rightarrow> Employee \<Rightarrow> RawPunchRecord list \<Rightarrow> nat \<Rightarrow> Exception list \<times> nat \<Rightarrow> Exception list \<times> nat" where
  "scanSessions now empId employee srt i st =
     (if i < length srt then
        (if punchType (srt ! i) = PunchIn then
           (case findOut srt (i + 1) of
              Some j \<Rightarrow> scanSessions now empId employee srt (j + 1) st
            | None \<Rightarrow>
                scanSessions now empId employee srt (i + 1)
                  (openSessionCheck now empId employee (srt ! i) st))
         else scanSessions now empId employee srt (i + 1)
                (orphanOutCheck empId employee srt i st))
      else st)"
  by pat_completeness auto
termination
  by (relation "measure (\<lambda>(now, empId, employee, srt, i, st). length srt - i)")
     (auto simp add: findOut_def find_Some_iff)

declare scanSessions.simps [simp del]

definition breachCheck ::
  "host \<Rightarrow> string \<Rightarrow> Employee \<Rightarrow> Exception list \<times> nat \<Rightarrow> RawPunchRecord \<Rightarrow> Exception list \<times> nat" where
  "breachCheck h empId employee st punch =
     (case st of (excs, exceptionId) \<Rightarrow>
        (case distanceMeters punch of
           None \<Rightarrow> (excs, exceptionId)
         | Some d \<Rightarrow>
             if d > DISTANCE_THRESHOLD_WARNING CONFIG then
               (excs @
                  [\<lparr> exc_id = excIdString exceptionId, exc_employeeId = empId,
                     exc_name = emp_name employee, exc_type = LocationBreach,
                     severity = (if d > 200 then SevCritical else SevWarning),
                     exc_status = StatusOpen, exc_timestamp = timestamp punch,
                     locationText = locationTextOf punch,
                     exc_distance = distanceMeters punch,
                     exc_notes = ''Distance '' @ numberToString h d @ ''m exceeds threshold'' \<rparr>],
                exceptionId + 1)
             else (excs, exceptionId)))"

text \<open>One iteration of the loop over \<^verbatim>\<open>byEmployee\<close>.\<close>

definition employeeExceptions ::
  "host \<Rightarrow> int \<Rightarrow> ProcessedData \<Rightarrow> Exception list \<times> nat \<Rightarrow> string \<times> RawPunchRecord list \<Rightarrow> Exception list \<times> nat" where
  "employeeExceptions h now data st entry =
     (case entry of (empId, empPunches) \<Rightarrow>
        (case mapGet (employees data) empId of
           None \<Rightarrow> st
         | Some employee \<Rightarrow>
             (let srt = sortByTimestamp empPunches;
                  st1 = lateArrivalCheck h empId employee srt st;
                  st2 = scanSessions now empId employee srt 0 st1
              in foldl (breachCheck h empId employee) st2 srt)))"

definition severityRank :: "ExceptionSeverity \<Rightarrow> nat" where
  "severityRank s = (case s of SevCritical \<Rightarrow> 0 | SevWarning \<Rightarrow> 1)"

text \<open>
  The final \<^verbatim>\<open>sort\<close> orders by severity, critical first, then by timestamp, latest
  first; it is stable, so it is a sort on the key below.
\<close>

definition calculateExceptions ::
  "host \<Rightarrow> int \<Rightarrow> ProcessedData \<Rightarrow> string option \<Rightarrow> Exception list" where
  "calculateExceptions h now data dateStr =
     (let dayPunches = dayPunchesOf h now data dateStr;
          byEmployee = groupByEmployee dayPunches;
          (exceptions, exceptionId) = foldl (employeeExceptions h now data) ([], 1) byEmployee
      in sort_key (\<lambda>e. (severityRank (severity e), - exc_timestamp e)) exceptions)"

section \<open>Employee shifts\<close>

definition truthy :: "string option \<Rightarrow> bool" where
  "truthy s = (case s of Some x \<Rightarrow> x \<noteq> [] | None \<Rightarrow> False)"

definition mkShift :: "RawPunchRecord \<Rightarrow> RawPunchRecord option \<Rightarrow> Shift" where
  "mkShift punch shiftEndRec =
     \<lparr> shiftStart = timestamp punch,
       shiftEnd = map_option timestamp shiftEndRec,
       durationMinutes =
         map_option (\<lambda>e. jsRound (real_of_int (timestamp e - timestamp punch) / (1000 * 60)))
           shiftEndRec,
       distanceStart = distanceMeters punch,
       distanceEnd = (case shiftEndRec of Some e \<Rightarrow> distanceMeters e | None \<Rightarrow> None),
       onSiteStart =
         (case distanceMeters punch of
            Some d \<Rightarrow> d \<le> DISTANCE_THRESHOLD_COMPLIANT CONFIG
          | None \<Rightarrow> False),
       onSiteEnd =
         (case shiftEndRec of
            Some e \<Rightarrow>
              (case distanceMeters e of
                 Some d \<Rightarrow> Some (d \<le> DISTANCE_THRESHOLD_COMPLIANT CONFIG)
               | None \<Rightarrow> None)
          | None \<Rightarrow> None) \<rparr>"

function pairShifts :: "RawPunchRecord list \<Rightarrow> nat \<Rightarrow> Shift list \<Rightarrow> Shift list" where
  "pairShifts srt i shifts =
     (if i < length srt then
        (if punchType (srt ! i) = PunchIn then
           (case findOut srt (i + 1) of
              Some j \<Rightarrow> pairShifts srt (j + 1) (shifts @ [mkShift (srt ! i) (Some (srt ! j))])
            | None \<Rightarrow> pairShifts srt (i + 1) (shifts @ [mkShift (srt ! i) None]))
         else pairShifts srt (i + 1) shifts)
      else shifts)"
  by pat_completeness auto
termination
  by (relation "measure (\<lambda>(srt, i, shifts). length srt - i)")
     (auto simp add: findOut_def find_Some_iff)

declare pairShifts.simps [simp del]

text \<open>
  A comparison with an invalid date is false, so an unparseable bound empties the
  selection.
\<close>

definition filterByRange ::
  "host \<Rightarrow> int \<Rightarrow> string option \<Rightarrow> string option \<Rightarrow> RawPunchRecord list \<Rightarrow> RawPunchRecord list" where
  "filterByRange h now startDate endDate empPunches =
     (if truthy startDate \<or> truthy endDate then
        (let start = (if truthy startDate then parseDate h (the startDate) else Some 0);
             endD = map_option (endOfDay h)
                      (if truthy endDate then parseDate h (the endDate) else Some now)
         in filter (\<lambda>p. (case start of Some s \<Rightarrow> timestamp p \<ge> s | None \<Rightarrow> False) \<and>
                         (case endD of Some e \<Rightarrow> timestamp p \<le> e | None \<Rightarrow> False))
              empPunches)
      else empPunches)"

definition calculateEmployeeShifts ::
  "host \<Rightarrow> int \<Rightarrow> ProcessedData \<Rightarrow> string \<Rightarrow> string option \<Rightarrow> string option \<Rightarrow> Shift list" where
  "calculateEmployeeShifts h now data empId startDate endDate =
     (let empPunches = (case mapGet (punchesByEmployee data) empId of Some ps \<Rightarrow> ps | None \<Rightarrow> []);
          filteredPunches = filterByRange h now startDate endDate empPunches;
          srt = sortByTimestamp filteredPunches
      in rev (pairShifts srt 0 []))"

section \<open>Parsing rows\<close>

text \<open>One step of the character loop of \<^verbatim>\<open>parseCSVLine\<close>.\<close>

definition csvStep :: "string list \<times> string \<times> bool \<Rightarrow> char \<Rightarrow> string list \<times> string \<times> bool" where
  "csvStep st c =
     (case st of (result, current, inQuotes) \<Rightarrow>
        if c = CHR 0x22 then (result, current, \<not> inQuotes)
        else if c = CHR '','' \<and> \<not> inQuotes then (result @ [trim current], [], inQuotes)
        else (result, current @ [c], inQuotes))"

definition parseCSVLine :: "string \<Rightarrow> string list" where
  "parseCSVLine line =
     (case foldl csvStep ([], [], False) line of
        (result, current, inQuotes) \<Rightarrow> result @ [trim current])"

record ColumnMap =
  cm_name :: int
  cm_employeeId :: int
  cm_punchType :: int
  cm_location :: int
  cm_timestamp :: int
  cm_manualLocation :: int
  cm_distance :: int

text \<open>\<^verbatim>\<open>values[i] || ''\<close>: an index outside the array reads \<^verbatim>\<open>undefined\<close>.\<close>

definition valueAt :: "string list \<Rightarrow> int \<Rightarrow> string" where
  "valueAt values i = (if 0 \<le> i \<and> nat i < length values then values ! nat i else [])"

fun strIncludes :: "string \<Rightarrow> string \<Rightarrow> bool" where
  "strIncludes [] pat = (pat = [])"
| "strIncludes (c # cs) pat = (take (length pat) (c # cs) = pat \<or> strIncludes cs pat)"

text \<open>Up to \<open>n\<close> leading digits of a string, and the rest.\<close>

definition takeDigits :: "nat \<Rightarrow> string \<Rightarrow> string \<times> string" where
  "takeDigits n s =
     (let ds = takeWhile isDigitChar (take n s) in (ds, drop (length ds) s))"

text \<open>
  The pattern
  \<^verbatim>\<open>(\d{1,2})\/(\d{1,2})\/(\d{4})\s+(\d{1,2}):(\d{2}):?(\d{2})?\<close>
  matched at the start of a string. Each quantified group is followed by a
  character outside its class, so the greedy choice is the only one that can
  succeed; the result is the six captured groups, the last one optional.
\<close>

definition matchDDMM ::
  "string \<Rightarrow> (string \<times> string \<times> string \<times> string \<times> string \<times> string option) option" where
  "matchDDMM s =
     (case takeDigits 2 s of (day, s1) \<Rightarrow>
      if day = [] \<or> s1 = [] \<or> hd s1 \<noteq> CHR ''/'' then None else
      (case takeDigits 2 (tl s1) of (month, s2) \<Rightarrow>
       if month = [] \<or> s2 = [] \<or> hd s2 \<noteq> CHR ''/'' then None else
       (case takeDigits 4 (tl s2) of (year, s3) \<Rightarrow>
        if length year \<noteq> 4 \<or> takeWhile isSpaceChar s3 = [] then None else
        (case takeDigits 2 (dropWhile isSpaceChar s3) of (hr, s4) \<Rightarrow>
         if hr = [] \<or> s4 = [] \<or> hd s4 \<noteq> CHR '':'' then None else
         (case takeDigits 2 (tl s4) of (minute, s5) \<Rightarrow>
          if length minute \<noteq> 2 then None else
          (let s6 = (if s5 \<noteq> [] \<and> hd s5 = CHR '':'' then tl s5 else s5);
               second = fst (takeDigits 2 s6)
           in Some (day, month, year, hr, minute,
                    if length second = 2 then Some second else None)))))))"

text \<open>\<^verbatim>\<open>raw.match(...)\<close>: the leftmost position at which the pattern matches.\<close>

fun searchDDMM ::
  "string \<Rightarrow> (string \<times> string \<times> string \<times> string \<times> string \<times> string option) option" where
  "searchDDMM [] = matchDDMM []"
| "searchDDMM (c # cs) =
     (case matchDDMM (c # cs) of Some m \<Rightarrow> Some m | None \<Rightarrow> searchDDMM cs)"

text \<open>\<^verbatim>\<open>/^\d{4}-\d{2}-\d{2}/\<close>.\<close>

definition isoPrefix :: "string \<Rightarrow> bool" where
  "isoPrefix raw =
     (length raw \<ge> 10 \<and> list_all isDigitChar (take 4 raw) \<and> raw ! 4 = CHR ''-'' \<and>
      list_all isDigitChar (take 2 (drop 5 raw)) \<and> raw ! 7 = CHR ''-'' \<and>
      list_all isDigitChar (take 2 (drop 8 raw)))"

definition parseTimestamp :: "host \<Rightarrow> string \<Rightarrow> int option" where
  "parseTimestamp h raw =
     (if raw = [] then None
      else
        (case (case searchDDMM raw of
                 Some (day, month, year, hr, minute, second) \<Rightarrow>
                   (let d = digitsToNat day; m = digitsToNat month
                    in if d \<ge> 1 \<and> d \<le> 31 \<and> m \<ge> 1 \<and> m \<le> 12
                       then Some (newDate h (int (digitsToNat year)) (int m - 1) (int d)
                                    (int (digitsToNat hr)) (int (digitsToNat minute))
                                    (int (digitsToNat (case second of Some s \<Rightarrow> s | None \<Rightarrow> ''0''))))
                       else None)
               | None \<Rightarrow> None) of
           Some t \<Rightarrow> Some t
         | None \<Rightarrow> if isoPrefix raw then parseDate h raw else None))"

definition parseRow :: "host \<Rightarrow> string list \<Rightarrow> ColumnMap \<Rightarrow> RawPunchRecord option" where
  "parseRow h values columnMap =
     (let nm = valueAt values (cm_name columnMap);
          employeeIdRaw = valueAt values (cm_employeeId columnMap);
          punchTypeRaw = valueAt values (cm_punchType columnMap);
          timestampRaw = valueAt values (cm_timestamp columnMap);
          empId = normalizeEmployeeId employeeIdRaw
      in if nm = [] \<or> empId = [] \<or> timestampRaw = [] then None
         else
           (let pt = (if strIncludes (toLowerCase punchTypeRaw) ''out'' then PunchOut else PunchIn)
            in case parseTimestamp h timestampRaw of
                 None \<Rightarrow> None
               | Some ts \<Rightarrow>
                   (let distanceRaw = valueAt values (cm_distance columnMap);
                        dist = (if distanceRaw \<noteq> [] then parseFloat h distanceRaw else None)
                    in Some \<lparr> name = trim nm, employeeId = empId, punchType = pt,
                              location = valueAt values (cm_location columnMap),
                              timestamp = ts,
                              manualLocation = valueAt values (cm_manualLocation columnMap),
                              distanceMeters = dist \<rparr>)))"

fun indexOf :: "'a list \<Rightarrow> 'a \<Rightarrow> int" where
  "indexOf [] x = - 1"
| "indexOf (y # ys) x = (if y = x then 0 else (let r = indexOf ys x in if r = - 1 then - 1 else r + 1))"

fun findColumnIndex :: "string list \<Rightarrow> string list \<Rightarrow> int" where
  "findColumnIndex headers [] = - 1"
| "findColumnIndex headers (nm # possibleNames) =
     (let idx = indexOf headers (toLowerCase nm)
      in if idx \<noteq> - 1 then idx else findColumnIndex headers possibleNames)"

definition columnMapOf :: "string list \<Rightarrow> ColumnMap" where
  "columnMapOf headers =
     \<lparr> cm_name = findColumnIndex headers [''name'', ''employee name'', ''employee_name''],
       cm_employeeId =
         findColumnIndex headers [''employee id'', ''employee_id'', ''employeeid'', ''id''],
       cm_punchType =
         findColumnIndex headers [''punch type'', ''punch_type'', ''punchtype'', ''type''],
       cm_location = findColumnIndex headers [''location'', ''gps'', ''coordinates''],
       cm_timestamp =
         findColumnIndex headers [''timestamp'', ''time'', ''date time'', ''datetime''],
       cm_manualLocation =
         findColumnIndex headers
           [''manual location'', ''manual_location'', ''manuallocation'', ''place''],
       cm_distance =
         findColumnIndex headers [''distance(m)'', ''distance'', ''distance_m'', ''distancem''] \<rparr>"

definition parseLine :: "host \<Rightarrow> ColumnMap \<Rightarrow> string \<Rightarrow> RawPunchRecord list" where
  "parseLine h columnMap l =
     (let line = trim l
      in if line = [] then []
         else (case parseRow h (parseCSVLine line) columnMap of
                 Some rcd \<Rightarrow> [rcd]
               | None \<Rightarrow> []))"

definition parseCSV :: "host \<Rightarrow> string \<Rightarrow> RawPunchRecord list" where
  "parseCSV h csvText =
     (let lines = splitOn (CHR 0x0A) csvText
      in if length lines < 2 then []
         else
           (let headers = map (\<lambda>x. trim (toLowerCase x)) (parseCSVLine (lines ! 0));
                columnMap = columnMapOf headers
            in concat (map (parseLine h columnMap) (tl lines))))"

section \<open>A host in UTC\<close>

text \<open>
  One concrete host, used to evaluate the model on examples: the time zone is
  UTC, dates follow the proleptic Gregorian calendar, and numbers are read and
  written in plain decimal notation.
\<close>

definition msPerDay :: int where
  "msPerDay = 86400000"

text \<open>The civil date (year, month 1-12, day) of a day number counted from 1970-01-01.\<close>

definition civilFromDays :: "int \<Rightarrow> int \<times> int \<times> int" where
  "civilFromDays z0 =
     (let z = z0 + 719468;
          era = z div 146097;
          doe = z - era * 146097;
          yoe = (doe - doe div 1460 + doe div 36524 - doe div 146096) div 365;
          doy = doe - (365 * yoe + yoe div 4 - yoe div 100);
          mp = (5 * doy + 2) div 153;
          d = doy - (153 * mp + 2) div 5 + 1;
          m = (if mp < 10 then mp + 3 else mp - 9);
          y = yoe + era * 400 + (if m \<le> 2 then 1 else 0)
      in (y, m, d))"

definition daysFromCivil :: "int \<Rightarrow> int \<Rightarrow> int \<Rightarrow> int" where
  "daysFromCivil y0 m d =
     (let y = (if m \<le> 2 then y0 - 1 else y0);
          era = y div 400;
          yoe = y - era * 400;
          doy = (153 * (if m > 2 then m - 3 else m + 9) + 2) div 5 + d - 1;
          doe = yoe * 365 + yoe div 4 - yoe div 100 + doy
      in era * 146097 + doe - 719468)"

fun fractionDigits :: "nat \<Rightarrow> real \<Rightarrow> string" where
  "fractionDigits 0 x = []"
| "fractionDigits (Suc n) x =
     (if x = 0 then []
      else digitChar (nat \<lfloor>x * 10\<rfloor>) # fractionDigits n (x * 10 - real_of_int \<lfloor>x * 10\<rfloor>))"

definition showDecimal :: "real \<Rightarrow> string" where
  "showDecimal x =
     (let a = \<bar>x\<bar>; ip = \<lfloor>a\<rfloor>; fr = a - real_of_int ip
      in (if x < 0 then ''-'' else []) @ showInt ip @
         (if fr = 0 then [] else CHR ''.'' # fractionDigits 17 fr))"

definition readDecimal :: "string \<Rightarrow> real option" where
  "readDecimal s =
     (let t = dropWhile isSpaceChar s;
          neg = (t \<noteq> [] \<and> hd t = CHR ''-'');
          u = (if t \<noteq> [] \<and> (hd t = CHR ''-'' \<or> hd t = CHR ''+'') then tl t else t);
          ip = takeWhile isDigitChar u;
          r = dropWhile isDigitChar u;
          fp = (if r \<noteq> [] \<and> hd r = CHR ''.'' then takeWhile isDigitChar (tl r) else []);
          v = real_of_int (int (digitsToNat ip)) +
              real_of_int (int (digitsToNat fp)) / 10 ^ length fp
      in if ip = [] \<and> fp = [] then None else Some (if neg then - v else v))"

definition readIsoDate :: "string \<Rightarrow> int option" where
  "readIsoDate s =
     (if length s = 10 \<and> isoPrefix s
      then Some (daysFromCivil (int (digitsToNat (take 4 s)))
                   (int (digitsToNat (take 2 (drop 5 s))))
                   (int (digitsToNat (take 2 (drop 8 s)))) * msPerDay)
      else None)"

definition utcHost :: host where
  "utcHost =
     \<lparr> getFullYear = (\<lambda>t. fst (civilFromDays (t div msPerDay))),
       getMonth = (\<lambda>t. fst (snd (civilFromDays (t div msPerDay))) - 1),
       getDate = (\<lambda>t. snd (snd (civilFromDays (t div msPerDay)))),
       getHours = (\<lambda>t. (t div 3600000) mod 24),
       getMinutes = (\<lambda>t. (t div 60000) mod 60),
       newDate = (\<lambda>y m d hh mm ss.
          (daysFromCivil y (m + 1) 1 + (d - 1)) * msPerDay + hh * 3600000 + mm * 60000 + ss * 1000),
       parseDate = readIsoDate,
       endOfDay = (\<lambda>t. (t div msPerDay) * msPerDay + 86399999),
       parseFloat = readDecimal,
       numberToString = showDecimal \<rparr>"

section \<open>Example data\<close>

text \<open>A punch record in the shape of the factory of the unit tests.\<close>

definition examplePunch :: "string \<Rightarrow> PunchType \<Rightarrow> int \<Rightarrow> real option \<Rightarrow> RawPunchRecord" where
  "examplePunch e pt t d =
     \<lparr> name = ''John Doe'', employeeId = e, punchType = pt, location = ''28.6139, 77.2090'',
       timestamp = t, manualLocation = ''Office HQ'', distanceMeters = d \<rparr>"

section \<open>Predicates used in the statements\<close>

text \<open>A well-formed shift: a closed shift does not end before it starts, an open one has no duration.\<close>

definition shiftOk :: "Shift \<Rightarrow> bool" where
  "shiftOk s \<longleftrightarrow>
     (\<forall>e. shiftEnd s = Some e \<longrightarrow> shiftStart s \<le> e) \<and>
     (shiftEnd s = None \<longrightarrow> durationMinutes s = None)"

text \<open>
  An exception of one of the three emitted types; one whose note reads as a late
  arrival carries the type of an open session.
\<close>

definition excTypeOk :: "Exception \<Rightarrow> bool" where
  "excTypeOk e \<longleftrightarrow>
     (exc_type e = OpenSession \<or> exc_type e = PunchOutWithoutIn \<or> exc_type e = LocationBreach) \<and>
     (take 12 (exc_notes e) = ''Late arrival'' \<longrightarrow> exc_type e = OpenSession)"

text \<open>
  What the open-session rule reads from the clock for one punch: the two
  threshold tests on the elapsed hours and their rounded value.
\<close>

definition openView :: "int \<Rightarrow> RawPunchRecord \<Rightarrow> bool \<times> bool \<times> int" where
  "openView now p =
     (hoursOpenOf now p \<ge> OPEN_SESSION_WARNING_HOURS CONFIG,
      hoursOpenOf now p \<ge> OPEN_SESSION_CRITICAL_HOURS CONFIG,
      jsRound (hoursOpenOf now p))"






section \<open>Identifier normalisation\<close>

lemma of_char_toUpperChar:
  "(of_char (toUpperChar c) :: nat) =
     (if 97 \<le> (of_char c :: nat) \<and> (of_char c :: nat) \<le> 122 then of_char c - 32 else of_char c)"
  by (auto simp add: toUpperChar_def)

























section \<open>Compliance classification\<close>

lemma complianceStatusOf_cases:
  "complianceStatusOf d =
     (case d of None \<Rightarrow> Unknown
      | Some x \<Rightarrow> if x \<le> 50 then Compliant else if x \<le> 100 then Warning else Breach)"
  by (simp add: complianceStatusOf_def CONFIG_def split: option.splits)

lemma locationOf_status:
  "l \<in> set (locationOf h data entry) \<Longrightarrow> status l = complianceStatusOf (distance l)"
  by (auto simp add: locationOf_def Let_def split: prod.splits option.splits if_splits)

text \<open>
  Claim C3. The compliance classification of an event is unknown when its distance
  is absent, compliant when the distance is at most the compliant threshold (50),
  warning when it is above that and at most the warning threshold (100), and breach
  above the warning threshold; 25 is compliant, 75 warning, 150 breach. Every
  entry of the latest-locations output carries the classification of its distance.
\<close>

theorem compliance_classification:
  "complianceStatusOf None = Unknown \<and>
   (\<forall>x. (x \<le> DISTANCE_THRESHOLD_COMPLIANT CONFIG \<longrightarrow> complianceStatusOf (Some x) = Compliant) \<and>
        (DISTANCE_THRESHOLD_COMPLIANT CONFIG < x \<and> x \<le> DISTANCE_THRESHOLD_WARNING CONFIG
           \<longrightarrow> complianceStatusOf (Some x) = Warning) \<and>
        (DISTANCE_THRESHOLD_WARNING CONFIG < x \<longrightarrow> complianceStatusOf (Some x) = Breach)) \<and>
   DISTANCE_THRESHOLD_COMPLIANT CONFIG = 50 \<and> DISTANCE_THRESHOLD_WARNING CONFIG = 100 \<and>
   complianceStatusOf (Some 25) = Compliant \<and>
   complianceStatusOf (Some 75) = Warning \<and>
   complianceStatusOf (Some 150) = Breach \<and>
   (\<forall>l \<in> set (calculateLatestLocations h data). status l = complianceStatusOf (distance l))"
proof -
  have "\<forall>l \<in> set (calculateLatestLocations h data). status l = complianceStatusOf (distance l)"
    by (auto simp add: calculateLatestLocations_def dest: locationOf_status)
  then show ?thesis
    by (simp add: complianceStatusOf_cases CONFIG_def)
qed

theorem compliance_classification_witness:
  "\<exists>l. calculateLatestLocations utcHost
          (processSheetData utcHost 1769752800000
             [examplePunch ''EMP001'' PunchIn 1769677200000 (Some 75)]) = [l] \<and>
       distance l = Some 75 \<and> status l = Warning \<and>
       (25 :: real) \<le> DISTANCE_THRESHOLD_COMPLIANT CONFIG \<and>
       complianceStatusOf (Some 25) = Compliant \<and>
       DISTANCE_THRESHOLD_COMPLIANT CONFIG < (75 :: real) \<and>
       (75 :: real) \<le> DISTANCE_THRESHOLD_WARNING CONFIG \<and>
       complianceStatusOf (Some 75) = Warning \<and>
       DISTANCE_THRESHOLD_WARNING CONFIG < (150 :: real) \<and>
       complianceStatusOf (Some 150) = Breach"
proof -
  let ?data = "processSheetData utcHost 1769752800000
             [examplePunch ''EMP001'' PunchIn 1769677200000 (Some 75)]"
  let ?l = "\<lparr> loc_employeeId = ''EMP001'', loc_name = ''John Doe'',
              lat = 286139 / 10000, long = 77209 / 1000, status = Warning,
              loc_timestamp = 1769677200000, distance = Some 75 \<rparr>"
  have v: "calculateLatestLocations utcHost ?data = [?l]"
    by code_simp
  have c1: "(25 :: real) \<le> DISTANCE_THRESHOLD_COMPLIANT CONFIG" by (simp add: CONFIG_def)
  have c2: "DISTANCE_THRESHOLD_COMPLIANT CONFIG < (75 :: real) \<and>
            (75 :: real) \<le> DISTANCE_THRESHOLD_WARNING CONFIG"
    by (simp add: CONFIG_def)
  have c3: "DISTANCE_THRESHOLD_WARNING CONFIG < (150 :: real)" by (simp add: CONFIG_def)
  note t = compliance_classification [of utcHost ?data]
  from t c1 have r1: "complianceStatusOf (Some 25) = Compliant" by blast
  from t c2 have r2: "complianceStatusOf (Some 75) = Warning" by blast
  from t c3 have r3: "complianceStatusOf (Some 150) = Breach" by blast
  from t v have "status ?l = complianceStatusOf (distance ?l)" by simp
  with r2 have "status ?l = Warning" by simp
  with v c1 c2 c3 r1 r2 r3 show ?thesis by simp
qed

section \<open>KPI snapshot\<close>

lemma calculateWorkingHours_Nil: "calculateWorkingHours [] = (0, 0)"
  by (simp add: calculateWorkingHours_def groupByEmployee_def)

lemma countLateArrivals_Nil: "countLateArrivals h [] = 0"
  by (simp add: countLateArrivals_def)

lemma jsRound_0: "jsRound 0 = 0"
  by (simp add: jsRound_def)

text \<open>
  Claim C8. When the query window holds no event, the KPI snapshot has zero active
  employees, 100 percent on-site compliance, zero total hours and zero exceptions;
  the calculation does not fail.
\<close>

theorem calculateKPIs_empty_window:
  assumes "dayPunchesOf h now data dateStr = []"
  shows "activeEmployeesCount (calculateKPIs h now data dateStr) = 0 \<and>
         onSiteCompliancePct (calculateKPIs h now data dateStr) = 100 \<and>
         totalWorkingHoursToday (calculateKPIs h now data dateStr) = 0 \<and>
         exceptionsCount (calculateKPIs h now data dateStr) = 0"
  using assms
  by (simp add: calculateKPIs_def calculateWorkingHours_Nil countLateArrivals_Nil jsRound_0)

theorem calculateKPIs_empty_window_witness:
  "dayPunchesOf utcHost 1769752800000
     (processSheetData utcHost 1769752800000
        [examplePunch ''EMP001'' PunchIn 1769677200000 (Some 75)]) (Some ''2030-12-31'') = [] \<and>
   calculateKPIs utcHost 1769752800000
     (processSheetData utcHost 1769752800000
        [examplePunch ''EMP001'' PunchIn 1769677200000 (Some 75)]) (Some ''2030-12-31'') =
   \<lparr> activeEmployeesCount = 0, totalWorkingHoursToday = 0, onSiteCompliancePct = 100,
     exceptionsCount = 0, serverTimestamp = 1769752800000 \<rparr>"
proof -
  let ?data = "processSheetData utcHost 1769752800000
        [examplePunch ''EMP001'' PunchIn 1769677200000 (Some 75)]"
  have e: "dayPunchesOf utcHost 1769752800000 ?data (Some ''2030-12-31'') = []"
    by code_simp
  have t: "serverTimestamp (calculateKPIs utcHost 1769752800000 ?data (Some ''2030-12-31'')) = 1769752800000"
    by (simp add: calculateKPIs_def Let_def split: prod.splits)
  from calculateKPIs_empty_window [OF e] t e show ?thesis
    by (cases "calculateKPIs utcHost 1769752800000 ?data (Some ''2030-12-31'')") simp
qed


section \<open>Shift pairing\<close>

lemma findOut_SomeD:
  "findOut srt s = Some j \<Longrightarrow> s \<le> j \<and> j < length srt \<and> punchType (srt ! j) = PunchOut"
  by (auto simp add: findOut_def find_Some_iff)


lemma sorted_sortByTimestamp: "sorted (map timestamp (sortByTimestamp ps))"
  by (simp add: sortByTimestamp_def)

lemma shiftOk_open: "shiftOk (mkShift p None)"
  by (simp add: shiftOk_def mkShift_def)

lemma shiftOk_closed: "timestamp p \<le> timestamp q \<Longrightarrow> shiftOk (mkShift p (Some q))"
  by (simp add: shiftOk_def mkShift_def)

lemma pairShifts_shiftOk:
  "sorted (map timestamp srt) \<Longrightarrow> \<forall>s \<in> set shifts. shiftOk s \<Longrightarrow>
   \<forall>s \<in> set (pairShifts srt i shifts). shiftOk s"
proof (induction srt i shifts rule: pairShifts.induct)
  case (1 srt i shifts)
  show ?case
  proof (cases "i < length srt")
    case False
    with "1.prems" show ?thesis by (simp add: pairShifts.simps [of srt i shifts])
  next
    case inb: True
    show ?thesis
    proof (cases "punchType (srt ! i) = PunchIn")
      case False
      from "1.IH"(3) [OF inb False "1.prems"]
      have "\<forall>s \<in> set (pairShifts srt (i + 1) shifts). shiftOk s" .
      with inb False show ?thesis
        by (simp add: pairShifts.simps [of srt i shifts])
    next
      case isIn: True
      show ?thesis
      proof (cases "findOut srt (i + 1)")
        case None
        have "\<forall>s \<in> set (shifts @ [mkShift (srt ! i) None]). shiftOk s"
          using "1.prems"(2) by (simp add: shiftOk_open)
        from "1.IH"(1) [OF inb isIn None "1.prems"(1) this]
        have "\<forall>s \<in> set (pairShifts srt (i + 1) (shifts @ [mkShift (srt ! i) None])). shiftOk s" .
        with inb isIn None show ?thesis
          by (simp add: pairShifts.simps [of srt i shifts])
      next
        case (Some j)
        then have j: "i + 1 \<le> j" "j < length srt" using findOut_SomeD by blast+
        with "1.prems"(1) have "timestamp (srt ! i) \<le> timestamp (srt ! j)"
          using sorted_nth_mono [of "map timestamp srt" i j] by simp
        then have "shiftOk (mkShift (srt ! i) (Some (srt ! j)))" by (rule shiftOk_closed)
        then have "\<forall>s \<in> set (shifts @ [mkShift (srt ! i) (Some (srt ! j))]). shiftOk s"
          using "1.prems"(2) by simp
        from "1.IH"(2) [OF inb isIn Some "1.prems"(1) this]
        have "\<forall>s \<in> set (pairShifts srt (j + 1) (shifts @ [mkShift (srt ! i) (Some (srt ! j))])).
                shiftOk s" .
        with inb isIn Some show ?thesis
          by (simp add: pairShifts.simps [of srt i shifts])
      qed
    qed
  qed
qed

text \<open>
  Claim C2. For every event list, shift pairing never produces a closed shift whose
  end timestamp is earlier than its start timestamp, and every open shift (one
  without an end) has no duration.
\<close>

theorem calculateEmployeeShifts_wellformed:
  "\<forall>s \<in> set (calculateEmployeeShifts h now data empId startDate endDate).
     (\<forall>e. shiftEnd s = Some e \<longrightarrow> shiftStart s \<le> e) \<and>
     (shiftEnd s = None \<longrightarrow> durationMinutes s = None)"
proof -
  have "\<forall>s \<in> set (pairShifts (sortByTimestamp ps) 0 []). shiftOk s" for ps
    by (rule pairShifts_shiftOk) (simp_all add: sorted_sortByTimestamp)
  then show ?thesis
    by (simp add: calculateEmployeeShifts_def Let_def shiftOk_def)
qed

theorem calculateEmployeeShifts_wellformed_witness:
  "calculateEmployeeShifts utcHost 1769752800000
     (processSheetData utcHost 1769752800000
        [examplePunch ''EMP001'' PunchOut 1769706000000 (Some 25),
         examplePunch ''EMP001'' PunchIn 1769677200000 (Some 25),
         examplePunch ''EMP001'' PunchIn 1769709600000 None])
     ''EMP001'' None None =
   [\<lparr> shiftStart = 1769709600000, shiftEnd = None, durationMinutes = None,
      distanceStart = None, distanceEnd = None, onSiteStart = False, onSiteEnd = None \<rparr>,
    \<lparr> shiftStart = 1769677200000, shiftEnd = Some 1769706000000, durationMinutes = Some 480,
      distanceStart = Some 25, distanceEnd = Some 25, onSiteStart = True,
      onSiteEnd = Some True \<rparr>] \<and>
   (1769677200000 :: int) \<le> 1769706000000 \<and>
   durationMinutes
     \<lparr> shiftStart = 1769709600000, shiftEnd = None, durationMinutes = None,
       distanceStart = None, distanceEnd = None, onSiteStart = False, onSiteEnd = None \<rparr> = None"
proof -
  let ?data = "processSheetData utcHost 1769752800000
        [examplePunch ''EMP001'' PunchOut 1769706000000 (Some 25),
         examplePunch ''EMP001'' PunchIn 1769677200000 (Some 25),
         examplePunch ''EMP001'' PunchIn 1769709600000 None]"
  let ?s = "\<lparr> shiftStart = 1769677200000, shiftEnd = Some 1769706000000, durationMinutes = Some 480,
      distanceStart = Some 25, distanceEnd = Some 25, onSiteStart = True,
      onSiteEnd = Some True \<rparr>"
  let ?o = "\<lparr> shiftStart = 1769709600000, shiftEnd = None, durationMinutes = None,
      distanceStart = None, distanceEnd = None, onSiteStart = False, onSiteEnd = None \<rparr>"
  have v: "calculateEmployeeShifts utcHost 1769752800000 ?data ''EMP001'' None None = [?o, ?s]"
    by code_simp
  then have m: "?s \<in> set (calculateEmployeeShifts utcHost 1769752800000 ?data ''EMP001'' None None)"
    and n: "?o \<in> set (calculateEmployeeShifts utcHost 1769752800000 ?data ''EMP001'' None None)"
    by simp_all
  note t = calculateEmployeeShifts_wellformed [of utcHost 1769752800000 ?data "''EMP001''" None None]
  have e: "shiftEnd ?s = Some 1769706000000" by simp
  from t m e have c: "shiftStart ?s \<le> 1769706000000" by blast
  have f: "shiftEnd ?o = None" by simp
  from t n f have o: "durationMinutes ?o = None" by blast
  from v c o show ?thesis by simp
qed

section \<open>Exception types\<close>

lemma lateArrivalCheck_typeOk:
  "\<forall>e \<in> set (fst st). excTypeOk e \<Longrightarrow>
   \<forall>e \<in> set (fst (lateArrivalCheck h empId employee srt st)). excTypeOk e"
  by (auto simp add: lateArrivalCheck_def Let_def excTypeOk_def split: prod.splits option.splits)

lemma openSessionCheck_typeOk:
  "\<forall>e \<in> set (fst st). excTypeOk e \<Longrightarrow>
   \<forall>e \<in> set (fst (openSessionCheck now empId employee punch st)). excTypeOk e"
  by (auto simp add: openSessionCheck_def Let_def excTypeOk_def split: prod.splits)

lemma orphanOutCheck_typeOk:
  "\<forall>e \<in> set (fst st). excTypeOk e \<Longrightarrow>
   \<forall>e \<in> set (fst (orphanOutCheck empId employee srt i st)). excTypeOk e"
  by (auto simp add: orphanOutCheck_def Let_def excTypeOk_def split: prod.splits)

lemma breachCheck_typeOk:
  "\<forall>e \<in> set (fst st). excTypeOk e \<Longrightarrow>
   \<forall>e \<in> set (fst (breachCheck h empId employee st punch)). excTypeOk e"
  by (auto simp add: breachCheck_def Let_def excTypeOk_def split: prod.splits option.splits)

lemma scanSessions_typeOk:
  "\<forall>e \<in> set (fst st). excTypeOk e \<Longrightarrow>
   \<forall>e \<in> set (fst (scanSessions now empId employee srt i st)). excTypeOk e"
proof (induction now empId employee srt i st rule: scanSessions.induct)
  case (1 now empId employee srt i st)
  show ?case
  proof (cases "i < length srt")
    case False
    with "1.prems" show ?thesis by (simp add: scanSessions.simps [of now empId employee srt i st])
  next
    case inb: True
    show ?thesis
    proof (cases "punchType (srt ! i) = PunchIn")
      case False
      from "1.IH"(3) [OF inb False orphanOutCheck_typeOk [OF "1.prems"]]
      show ?thesis using inb False
        by (simp add: scanSessions.simps [of now empId employee srt i st])
    next
      case isIn: True
      show ?thesis
      proof (cases "findOut srt (i + 1)")
        case None
        from "1.IH"(1) [OF inb isIn None openSessionCheck_typeOk [OF "1.prems"]]
        show ?thesis using inb isIn None
          by (simp add: scanSessions.simps [of now empId employee srt i st])
      next
        case (Some j)
        from "1.IH"(2) [OF inb isIn Some "1.prems"]
        show ?thesis using inb isIn Some
          by (simp add: scanSessions.simps [of now empId employee srt i st])
      qed
    qed
  qed
qed

lemma foldl_breachCheck_typeOk:
  "\<forall>e \<in> set (fst st). excTypeOk e \<Longrightarrow>
   \<forall>e \<in> set (fst (foldl (breachCheck h empId employee) st ps)). excTypeOk e"
proof (induction ps arbitrary: st)
  case Nil
  then show ?case by simp
next
  case (Cons p ps)
  from Cons.IH [OF breachCheck_typeOk [OF Cons.prems]] show ?case by simp
qed

lemma employeeExceptions_typeOk:
  assumes "\<forall>e \<in> set (fst st). excTypeOk e"
  shows "\<forall>e \<in> set (fst (employeeExceptions h now data st entry)). excTypeOk e"
proof (cases entry)
  case (Pair empId empPunches)
  show ?thesis
  proof (cases "mapGet (employees data) empId")
    case None
    with Pair assms show ?thesis by (simp add: employeeExceptions_def)
  next
    case (Some employee)
    have "\<forall>e \<in> set (fst (foldl (breachCheck h empId employee)
              (scanSessions now empId employee (sortByTimestamp empPunches) 0
                 (lateArrivalCheck h empId employee (sortByTimestamp empPunches) st))
              (sortByTimestamp empPunches))). excTypeOk e"
      by (intro foldl_breachCheck_typeOk scanSessions_typeOk lateArrivalCheck_typeOk assms)
    with Pair Some show ?thesis by (simp add: employeeExceptions_def Let_def)
  qed
qed

lemma foldl_employeeExceptions_typeOk:
  "\<forall>e \<in> set (fst st). excTypeOk e \<Longrightarrow>
   \<forall>e \<in> set (fst (foldl (employeeExceptions h now data) st entries)). excTypeOk e"
proof (induction entries arbitrary: st)
  case Nil
  then show ?case by simp
next
  case (Cons x xs)
  from Cons.IH [OF employeeExceptions_typeOk [OF Cons.prems]] show ?case by simp
qed

text \<open>
  Claim C10. Every exception emitted by the exception calculation has type
  OpenSession, PunchOutWithoutIn or LocationBreach; LocationMissing is never
  emitted, and a late-arrival exception (its note starts with "Late arrival") is
  emitted with type OpenSession.
\<close>

theorem calculateExceptions_types:
  "\<forall>e \<in> set (calculateExceptions h now data dateStr).
     (exc_type e = OpenSession \<or> exc_type e = PunchOutWithoutIn \<or> exc_type e = LocationBreach) \<and>
     exc_type e \<noteq> LocationMissing \<and>
     (take 12 (exc_notes e) = ''Late arrival'' \<longrightarrow> exc_type e = OpenSession)"
proof -
  have "\<forall>e \<in> set (fst (foldl (employeeExceptions h now data) ([], 1) entries)). excTypeOk e"
    for entries
    by (rule foldl_employeeExceptions_typeOk) simp
  then have "\<forall>e \<in> set (calculateExceptions h now data dateStr). excTypeOk e"
    by (simp add: calculateExceptions_def Let_def split: prod.splits) (metis fst_conv)
  then show ?thesis
    by (auto simp add: excTypeOk_def)
qed

theorem calculateExceptions_types_witness:
  "calculateExceptions utcHost 1769752800000
     (processSheetData utcHost 1769752800000
        [examplePunch ''EMP001'' PunchIn 1769684400000 (Some 25),
         examplePunch ''EMP001'' PunchOut 1769706000000 (Some 25)])
     (Some ''2026-01-29'') =
   [\<lparr> exc_id = ''EXC00001'', exc_employeeId = ''EMP001'', exc_name = ''John Doe'',
      exc_type = OpenSession, severity = SevCritical, exc_status = StatusOpen,
      exc_timestamp = 1769684400000, locationText = ''Office HQ'', exc_distance = Some 25,
      exc_notes = ''Late arrival by 120 minutes'' \<rparr>] \<and>
   take 12 ''Late arrival by 120 minutes'' = ''Late arrival''"
proof -
  let ?data = "processSheetData utcHost 1769752800000
        [examplePunch ''EMP001'' PunchIn 1769684400000 (Some 25),
         examplePunch ''EMP001'' PunchOut 1769706000000 (Some 25)]"
  let ?e = "\<lparr> exc_id = ''EXC00001'', exc_employeeId = ''EMP001'', exc_name = ''John Doe'',
      exc_type = OpenSession, severity = SevCritical, exc_status = StatusOpen,
      exc_timestamp = 1769684400000, locationText = ''Office HQ'', exc_distance = Some 25,
      exc_notes = ''Late arrival by 120 minutes'' \<rparr>"
  have v: "calculateExceptions utcHost 1769752800000 ?data (Some ''2026-01-29'') = [?e]"
    by code_simp
  then have m: "?e \<in> set (calculateExceptions utcHost 1769752800000 ?data (Some ''2026-01-29''))"
    by simp
  have n: "take 12 (exc_notes ?e) = ''Late arrival''" by simp
  from calculateExceptions_types [of utcHost 1769752800000 ?data "Some ''2026-01-29''"] m n
  have "exc_type ?e = OpenSession" by blast
  with v n show ?thesis by simp
qed


section \<open>Working hours\<close>

lemma findOut_rec:
  "findOut srt s =
     (if s < length srt
      then (if punchType (srt ! s) = PunchOut then Some s else findOut srt (Suc s))
      else None)"
  by (simp add: findOut_def upt_rec [of s "length srt"])

lemma mapSet_absent: "map_of m k = None \<Longrightarrow> mapSet m k v = m @ [(k, v)]"
  by (induction m) (auto split: if_splits)

lemma pushTo_head: "pushTo ((k, xs) # m) k x = (k, xs @ [x]) # m"
  by (simp add: pushTo_def mapHas_def mapGet_def)

lemma foldl_pushTo_single:
  "\<forall>p \<in> set ps. employeeId p = e \<Longrightarrow>
   foldl (\<lambda>m punch. pushTo m (employeeId punch) punch) [(e, xs)] ps = [(e, xs @ ps)]"
  by (induction ps arbitrary: xs) (simp_all add: pushTo_head)

lemma groupByEmployee_single:
  assumes "ps \<noteq> []" and "\<forall>p \<in> set ps. employeeId p = e"
  shows "groupByEmployee ps = [(e, ps)]"
proof (cases ps)
  case Nil
  with assms show ?thesis by simp
next
  case (Cons p qs)
  with assms have "pushTo [] (employeeId p) p = [(e, [p])]"
    by (simp add: pushTo_def mapHas_def mapGet_def)
  with Cons assms show ?thesis
    by (simp add: groupByEmployee_def foldl_pushTo_single)
qed

lemma sortByTimestamp_unique:
  assumes "mset ps = mset qs" and "sorted (map timestamp qs)" and "distinct (map timestamp qs)"
  shows "sortByTimestamp ps = qs"
  unfolding sortByTimestamp_def
proof (rule sort_key_inj_key_eq [OF assms(1) _ assms(2)])
  from assms(1) have "set ps = set qs" by (rule mset_eq_setD)
  moreover from assms(3) have "inj_on timestamp (set qs)" by (simp add: distinct_map)
  ultimately show "inj_on timestamp (set ps)" by simp
qed

lemma pairHours_two:
  "punchType a = PunchIn \<Longrightarrow> punchType b = PunchOut \<Longrightarrow>
   pairHours [a, b] 0 (0, 0) = (real_of_int (timestamp b - timestamp a) / 60000, 0)"
  by (simp add: pairHours.simps findOut_rec)

lemma pairHours_four:
  "punchType a = PunchIn \<Longrightarrow> punchType b = PunchOut \<Longrightarrow>
   punchType c = PunchIn \<Longrightarrow> punchType d = PunchOut \<Longrightarrow>
   pairHours [a, b, c, d] 0 (0, 0) =
     (real_of_int (timestamp b - timestamp a) / 60000 +
      real_of_int (timestamp d - timestamp c) / 60000, 0)"
  by (simp add: pairHours.simps findOut_rec)

lemma calculateWorkingHours_single:
  assumes "ps \<noteq> []" and "\<forall>p \<in> set ps. employeeId p = e"
  shows "calculateWorkingHours ps =
           (fst (pairHours (sortByTimestamp ps) 0 (0, 0)) / 60,
            snd (pairHours (sortByTimestamp ps) 0 (0, 0)))"
  by (simp add: calculateWorkingHours_def groupByEmployee_single [OF assms] split: prod.splits)

lemma totalWorkingHoursToday_eq:
  "totalWorkingHoursToday (calculateKPIs h now data dateStr) =
     real_of_int (jsRound (fst (calculateWorkingHours (dayPunchesOf h now data dateStr)) * 10)) / 10"
  by (simp add: calculateKPIs_def Let_def split: prod.splits)

text \<open>
  Claim C4. For one employee whose window holds exactly an In and an Out eight
  hours later (In at 09:00, Out at 17:00) the total working hours of the KPI
  snapshot are 8.0; with In 09:00, Out 12:00, In 13:00, Out 17:00 they are 7.0:
  two closed shifts, the lunch gap left out. The events may come in any order.
\<close>

theorem calculateKPIs_paired_hours:
  "(mset (dayPunchesOf h now data dateStr) = {#a, b#} \<and>
    employeeId b = employeeId a \<and>
    punchType a = PunchIn \<and> punchType b = PunchOut \<and>
    timestamp b = timestamp a + 8 * 3600000
    \<longrightarrow> totalWorkingHoursToday (calculateKPIs h now data dateStr) = 8) \<and>
   (mset (dayPunchesOf h now data dateStr) = {#a, b, c, d#} \<and>
    employeeId b = employeeId a \<and> employeeId c = employeeId a \<and> employeeId d = employeeId a \<and>
    punchType a = PunchIn \<and> punchType b = PunchOut \<and>
    punchType c = PunchIn \<and> punchType d = PunchOut \<and>
    timestamp b = timestamp a + 3 * 3600000 \<and>
    timestamp c = timestamp a + 4 * 3600000 \<and>
    timestamp d = timestamp a + 8 * 3600000
    \<longrightarrow> totalWorkingHoursToday (calculateKPIs h now data dateStr) = 7)"
proof (intro conjI impI)
  let ?ps = "dayPunchesOf h now data dateStr"
  assume A: "mset ?ps = {#a, b#} \<and> employeeId b = employeeId a \<and>
    punchType a = PunchIn \<and> punchType b = PunchOut \<and>
    timestamp b = timestamp a + 8 * 3600000"
  then have m: "mset ?ps = mset [a, b]" by simp
  then have s: "set ?ps = {a, b}" by (metis mset_eq_setD list.simps(15) empty_set)
  have srt: "sortByTimestamp ?ps = [a, b]"
    using A by (intro sortByTimestamp_unique [OF m]) simp_all
  from s have ne: "?ps \<noteq> []" by auto
  from s A have e: "\<forall>p \<in> set ?ps. employeeId p = employeeId a" by simp
  have "fst (calculateWorkingHours ?ps) = 8"
    using A by (simp add: calculateWorkingHours_single [OF ne e] srt pairHours_two)
  then show "totalWorkingHoursToday (calculateKPIs h now data dateStr) = 8"
    by (simp add: totalWorkingHoursToday_eq jsRound_def)
next
  let ?ps = "dayPunchesOf h now data dateStr"
  assume A: "mset ?ps = {#a, b, c, d#} \<and>
    employeeId b = employeeId a \<and> employeeId c = employeeId a \<and> employeeId d = employeeId a \<and>
    punchType a = PunchIn \<and> punchType b = PunchOut \<and>
    punchType c = PunchIn \<and> punchType d = PunchOut \<and>
    timestamp b = timestamp a + 3 * 3600000 \<and>
    timestamp c = timestamp a + 4 * 3600000 \<and>
    timestamp d = timestamp a + 8 * 3600000"
  then have m: "mset ?ps = mset [a, b, c, d]" by simp
  then have s: "set ?ps = {a, b, c, d}" by (metis mset_eq_setD list.simps(15) empty_set)
  have srt: "sortByTimestamp ?ps = [a, b, c, d]"
    using A by (intro sortByTimestamp_unique [OF m]) simp_all
  from s have ne: "?ps \<noteq> []" by auto
  from s A have e: "\<forall>p \<in> set ?ps. employeeId p = employeeId a" by simp
  have "fst (calculateWorkingHours ?ps) = 7"
    using A by (simp add: calculateWorkingHours_single [OF ne e] srt pairHours_four)
  then show "totalWorkingHoursToday (calculateKPIs h now data dateStr) = 7"
    by (simp add: totalWorkingHoursToday_eq jsRound_def)
qed


theorem calculateKPIs_paired_hours_witness:
  "dayPunchesOf utcHost 1769752800000
     (processSheetData utcHost 1769752800000
        [examplePunch ''EMP001'' PunchOut 1769706000000 (Some 25),
         examplePunch ''EMP001'' PunchIn 1769677200000 (Some 25)]) (Some ''2026-01-29'') =
     [examplePunch ''EMP001'' PunchIn 1769677200000 (Some 25),
      examplePunch ''EMP001'' PunchOut 1769706000000 (Some 25)] \<and>
   totalWorkingHoursToday (calculateKPIs utcHost 1769752800000
     (processSheetData utcHost 1769752800000
        [examplePunch ''EMP001'' PunchOut 1769706000000 (Some 25),
         examplePunch ''EMP001'' PunchIn 1769677200000 (Some 25)]) (Some ''2026-01-29'')) = 8 \<and>
   dayPunchesOf utcHost 1769752800000
     (processSheetData utcHost 1769752800000
        [examplePunch ''EMP001'' PunchIn 1769691600000 (Some 25),
         examplePunch ''EMP001'' PunchOut 1769706000000 (Some 25),
         examplePunch ''EMP001'' PunchIn 1769677200000 (Some 25),
         examplePunch ''EMP001'' PunchOut 1769688000000 (Some 25)]) (Some ''2026-01-29'') =
     [examplePunch ''EMP001'' PunchIn 1769677200000 (Some 25),
      examplePunch ''EMP001'' PunchOut 1769688000000 (Some 25),
      examplePunch ''EMP001'' PunchIn 1769691600000 (Some 25),
      examplePunch ''EMP001'' PunchOut 1769706000000 (Some 25)] \<and>
   totalWorkingHoursToday (calculateKPIs utcHost 1769752800000
     (processSheetData utcHost 1769752800000
        [examplePunch ''EMP001'' PunchIn 1769691600000 (Some 25),
         examplePunch ''EMP001'' PunchOut 1769706000000 (Some 25),
         examplePunch ''EMP001'' PunchIn 1769677200000 (Some 25),
         examplePunch ''EMP001'' PunchOut 1769688000000 (Some 25)]) (Some ''2026-01-29'')) = 7"
proof -
  let ?a = "examplePunch ''EMP001'' PunchIn 1769677200000 (Some 25)"
  let ?b = "examplePunch ''EMP001'' PunchOut 1769688000000 (Some 25)"
  let ?c = "examplePunch ''EMP001'' PunchIn 1769691600000 (Some 25)"
  let ?d = "examplePunch ''EMP001'' PunchOut 1769706000000 (Some 25)"
  let ?data8 = "processSheetData utcHost 1769752800000 [?d, ?a]"
  let ?data7 = "processSheetData utcHost 1769752800000 [?c, ?d, ?a, ?b]"
  have d8: "dayPunchesOf utcHost 1769752800000 ?data8 (Some ''2026-01-29'') = [?a, ?d]"
    by code_simp
  have d7: "dayPunchesOf utcHost 1769752800000 ?data7 (Some ''2026-01-29'') = [?a, ?b, ?c, ?d]"
    by code_simp
  have m8: "mset (dayPunchesOf utcHost 1769752800000 ?data8 (Some ''2026-01-29'')) = {#?a, ?d#}"
    by (simp add: d8)
  have p8: "employeeId ?d = employeeId ?a \<and> punchType ?a = PunchIn \<and> punchType ?d = PunchOut \<and>
            timestamp ?d = timestamp ?a + 8 * 3600000"
    by (simp add: examplePunch_def)
  have h8: "totalWorkingHoursToday
      (calculateKPIs utcHost 1769752800000 ?data8 (Some ''2026-01-29'')) = 8"
    using calculateKPIs_paired_hours
      [of utcHost 1769752800000 ?data8 "Some ''2026-01-29''" ?a ?d ?c ?d] m8 p8
    by blast
  have m7: "mset (dayPunchesOf utcHost 1769752800000 ?data7 (Some ''2026-01-29'')) =
              {#?a, ?b, ?c, ?d#}"
    by (simp add: d7)
  have p7: "employeeId ?b = employeeId ?a \<and> employeeId ?c = employeeId ?a \<and>
            employeeId ?d = employeeId ?a \<and>
            punchType ?a = PunchIn \<and> punchType ?b = PunchOut \<and>
            punchType ?c = PunchIn \<and> punchType ?d = PunchOut \<and>
            timestamp ?b = timestamp ?a + 3 * 3600000 \<and>
            timestamp ?c = timestamp ?a + 4 * 3600000 \<and>
            timestamp ?d = timestamp ?a + 8 * 3600000"
    by (simp add: examplePunch_def)
  have h7: "totalWorkingHoursToday
      (calculateKPIs utcHost 1769752800000 ?data7 (Some ''2026-01-29'')) = 7"
    using calculateKPIs_paired_hours
      [of utcHost 1769752800000 ?data7 "Some ''2026-01-29''" ?a ?b ?c ?d] m7 p7
    by blast
  from d8 d7 h8 h7 show ?thesis by simp
qed


section \<open>Row normalisation\<close>

lemma dropWhile_id: "xs = [] \<or> \<not> P (hd xs) \<Longrightarrow> dropWhile P xs = xs"
  by (cases xs) auto

lemma trim_fixed:
  assumes "t = [] \<or> (\<not> isSpaceChar (hd t) \<and> \<not> isSpaceChar (last t))"
  shows "trim t = t"
proof (cases "t = []")
  case True
  then show ?thesis by (simp add: trim_def)
next
  case False
  with assms have h: "\<not> isSpaceChar (hd t)" and l: "\<not> isSpaceChar (last t)" by auto
  from h have 1: "dropWhile isSpaceChar t = t" by (intro dropWhile_id) simp
  from False l have 2: "dropWhile isSpaceChar (rev t) = rev t"
    by (intro dropWhile_id) (simp add: hd_rev)
  show ?thesis by (simp add: trim_def 1 2)
qed

lemma trim_ends:
  "trim s = [] \<or> (\<not> isSpaceChar (hd (trim s)) \<and> \<not> isSpaceChar (last (trim s)))"
proof (cases "trim s = []")
  case True
  then show ?thesis by simp
next
  case False
  let ?u = "dropWhile isSpaceChar s"
  let ?v = "dropWhile isSpaceChar (rev ?u)"
  from False have v: "?v \<noteq> []" by (simp add: trim_def)
  have u: "?u \<noteq> []"
  proof
    assume a: "?u = []"
    have "?v = []" unfolding a by simp
    with v show False by simp
  qed
  have hv: "\<not> isSpaceChar (hd ?v)" using v by (rule hd_dropWhile)
  have hu: "\<not> isSpaceChar (hd ?u)" using u by (rule hd_dropWhile)
  obtain w where w: "rev ?u = w @ ?v"
    by (metis takeWhile_dropWhile_id)
  have "last ?v = last (rev ?u)" by (metis w v last_appendR)
  also have "\<dots> = hd ?u" using u by (simp add: last_rev)
  finally have lv: "\<not> isSpaceChar (last ?v)" using hu by simp
  have "hd (trim s) = last ?v" using v by (simp add: trim_def hd_rev)
  moreover have "last (trim s) = hd ?v" using v by (simp add: trim_def last_rev)
  ultimately show ?thesis using hv lv by simp
qed

lemma trim_idem: "trim (trim s) = trim s"
  by (rule trim_fixed) (rule trim_ends)

lemma csvStep_trimmed:
  "\<forall>v \<in> set (fst st). trim v = v \<Longrightarrow> \<forall>v \<in> set (fst (csvStep st c)). trim v = v"
  by (auto simp add: csvStep_def trim_idem split: prod.splits)

lemma foldl_csvStep_trimmed:
  "\<forall>v \<in> set (fst st). trim v = v \<Longrightarrow> \<forall>v \<in> set (fst (foldl csvStep st line)). trim v = v"
proof (induction line arbitrary: st)
  case Nil
  then show ?case by simp
next
  case (Cons c cs)
  from Cons.IH [OF csvStep_trimmed [OF Cons.prems]] show ?case by simp
qed

lemma parseCSVLine_trimmed: "\<forall>v \<in> set (parseCSVLine line). trim v = v"
proof -
  have "\<forall>v \<in> set (fst (foldl csvStep ([], [], False) line)). trim v = v"
    by (rule foldl_csvStep_trimmed) simp
  moreover obtain result current inQuotes
    where f: "foldl csvStep ([], [], False) line = (result, current, inQuotes)"
    by (cases "foldl csvStep ([], [], False) line")
  ultimately have "\<forall>v \<in> set result. trim v = v" by simp
  with f show ?thesis
    by (simp add: parseCSVLine_def trim_idem)
qed

lemma valueAt_mem: "valueAt values i \<noteq> [] \<Longrightarrow> valueAt values i \<in> set values"
  by (auto simp add: valueAt_def split: if_splits)

lemma parseRow_empty_name:
  "valueAt values (cm_name columnMap) = [] \<Longrightarrow> parseRow h values columnMap = None"
  by (simp add: parseRow_def)

lemma parseRow_name:
  assumes "parseRow h values columnMap = Some r"
  shows "valueAt values (cm_name columnMap) \<noteq> [] \<and> name r = trim (valueAt values (cm_name columnMap))"
  using assms
  by (auto simp add: parseRow_def Let_def split: if_splits option.splits)

lemma parseLine_name: "r \<in> set (parseLine h columnMap l) \<Longrightarrow> name r \<noteq> []"
proof -
  assume "r \<in> set (parseLine h columnMap l)"
  then have p: "parseRow h (parseCSVLine (trim l)) columnMap = Some r"
    by (auto simp add: parseLine_def Let_def split: if_splits option.splits)
  let ?nm = "valueAt (parseCSVLine (trim l)) (cm_name columnMap)"
  from parseRow_name [OF p] have ne: "?nm \<noteq> []" and n: "name r = trim ?nm" by simp_all
  from valueAt_mem [OF ne] parseCSVLine_trimmed have "trim ?nm = ?nm" by blast
  with ne n show ?thesis by simp
qed

text \<open>
  Claim C7, as amended. The Normalizer never produces an event whose name is
  empty: every event parsed from CSV text has a non-empty name, and a row whose
  name field is empty or missing is dropped, whatever its identifier and timestamp.
\<close>

theorem parseCSV_name_nonempty:
  "(\<forall>r \<in> set (parseCSV h csvText). name r \<noteq> []) \<and>
   (valueAt values (cm_name columnMap) = [] \<longrightarrow> parseRow h values columnMap = None)"
  by (auto simp add: parseCSV_def Let_def parseRow_empty_name dest: parseLine_name)

text \<open>
  Claim C7 as stated fails: a row with a valid identifier, a parseable timestamp
  and an empty name field yields no event, and no row with an empty name field
  ever yields one.
\<close>

theorem parseRow_empty_name_dropped:
  "valueAt ['''', ''EMP001'', ''Punch In'', ''28.6139, 77.2090'', ''29/01/2026 09:00:00'',
            ''Office HQ'', ''25'']
     (cm_name (columnMapOf [''name'', ''employee id'', ''punch type'', ''location'',
                            ''timestamp'', ''manual location'', ''distance(m)''])) = [] \<and>
   normalizeEmployeeId ''EMP001'' = ''EMP001'' \<and>
   parseTimestamp utcHost ''29/01/2026 09:00:00'' = Some 1769677200000 \<and>
   parseRow utcHost
     ['''', ''EMP001'', ''Punch In'', ''28.6139, 77.2090'', ''29/01/2026 09:00:00'',
      ''Office HQ'', ''25'']
     (columnMapOf [''name'', ''employee id'', ''punch type'', ''location'',
                   ''timestamp'', ''manual location'', ''distance(m)'']) = None \<and>
   \<not> (\<exists>h values columnMap.
        valueAt values (cm_name columnMap) = [] \<and>
        normalizeEmployeeId (valueAt values (cm_employeeId columnMap)) \<noteq> [] \<and>
        parseTimestamp h (valueAt values (cm_timestamp columnMap)) \<noteq> None \<and>
        parseRow h values columnMap \<noteq> None)"
proof -
  have 1: "valueAt ['''', ''EMP001'', ''Punch In'', ''28.6139, 77.2090'', ''29/01/2026 09:00:00'',
            ''Office HQ'', ''25'']
     (cm_name (columnMapOf [''name'', ''employee id'', ''punch type'', ''location'',
                            ''timestamp'', ''manual location'', ''distance(m)''])) = []"
    by code_simp
  have 2: "normalizeEmployeeId ''EMP001'' = ''EMP001''" by code_simp
  have 3: "parseTimestamp utcHost ''29/01/2026 09:00:00'' = Some 1769677200000" by code_simp
  have 4: "parseRow utcHost
     ['''', ''EMP001'', ''Punch In'', ''28.6139, 77.2090'', ''29/01/2026 09:00:00'',
      ''Office HQ'', ''25'']
     (columnMapOf [''name'', ''employee id'', ''punch type'', ''location'',
                   ''timestamp'', ''manual location'', ''distance(m)'']) = None"
    by code_simp
  have 5: "\<not> (\<exists>h values columnMap.
        valueAt values (cm_name columnMap) = [] \<and>
        normalizeEmployeeId (valueAt values (cm_employeeId columnMap)) \<noteq> [] \<and>
        parseTimestamp h (valueAt values (cm_timestamp columnMap)) \<noteq> None \<and>
        parseRow h values columnMap \<noteq> None)"
    by (simp add: parseRow_empty_name)
  from 1 2 3 4 5 show ?thesis by blast
qed

theorem parseCSV_name_nonempty_witness:
  "parseCSV utcHost
     (''Name,Employee ID,Punch Type,Location,Timestamp,Manual Location,Distance(m)'' @ [CHR 0x0A] @
      '',EMP002,Punch In,,29/01/2026 09:05:00,Office HQ,25'' @ [CHR 0x0A] @
      ''John Doe, emp 001,Punch In,,29/01/2026 09:00:00,Office HQ,25'') =
   [\<lparr> name = ''John Doe'', employeeId = ''EMP001'', punchType = PunchIn, location = [],
      timestamp = 1769677200000, manualLocation = ''Office HQ'', distanceMeters = Some 25 \<rparr>] \<and>
   ''John Doe'' \<noteq> [] \<and>
   valueAt ['''', ''EMP002''] 0 = [] \<and>
   parseRow utcHost ['''', ''EMP002'']
     \<lparr> cm_name = 0, cm_employeeId = 1, cm_punchType = - 1, cm_location = - 1,
       cm_timestamp = - 1, cm_manualLocation = - 1, cm_distance = - 1 \<rparr> = None"
proof -
  let ?csv = "''Name,Employee ID,Punch Type,Location,Timestamp,Manual Location,Distance(m)'' @ [CHR 0x0A] @
      '',EMP002,Punch In,,29/01/2026 09:05:00,Office HQ,25'' @ [CHR 0x0A] @
      ''John Doe, emp 001,Punch In,,29/01/2026 09:00:00,Office HQ,25''"
  let ?r = "\<lparr> name = ''John Doe'', employeeId = ''EMP001'', punchType = PunchIn, location = [],
      timestamp = 1769677200000, manualLocation = ''Office HQ'', distanceMeters = Some 25 \<rparr>"
  let ?cm = "\<lparr> cm_name = 0, cm_employeeId = 1, cm_punchType = - 1, cm_location = - 1,
       cm_timestamp = - 1, cm_manualLocation = - 1, cm_distance = - 1 \<rparr>"
  have v: "parseCSV utcHost ?csv = [?r]" by code_simp
  have e: "valueAt ['''', ''EMP002''] (cm_name ?cm) = []" by (simp add: valueAt_def)
  from parseCSV_name_nonempty [of utcHost ?csv "['''', ''EMP002'']" ?cm] v e
  have "name ?r \<noteq> [] \<and> parseRow utcHost ['''', ''EMP002''] ?cm = None" by simp
  with v e show ?thesis by simp
qed


section \<open>Re-running the derivations\<close>

lemma targetDateOf_truthy:
  "truthy dateStr \<Longrightarrow> targetDateOf h now1 dateStr = targetDateOf h now2 dateStr"
  by (auto simp add: truthy_def targetDateOf_def split: option.splits)

lemma dayPunchesOf_truthy:
  "truthy dateStr \<Longrightarrow> dayPunchesOf h now1 data dateStr = dayPunchesOf h now2 data dateStr"
  by (simp add: dayPunchesOf_def targetDateOf_truthy [of dateStr h now1 now2])

lemma set_mapSet: "set (mapSet m k v) \<subseteq> insert (k, v) (set m)"
  by (induction m) (auto split: if_splits)

lemma mapSet_members:
  assumes "\<forall>(k, xs) \<in> set m. set xs \<subseteq> S" and "set ys \<subseteq> S"
  shows "\<forall>(k, xs) \<in> set (mapSet m k' ys). set xs \<subseteq> S"
proof (intro ballI)
  fix entry
  assume "entry \<in> set (mapSet m k' ys)"
  with set_mapSet [of m k' ys] have "entry = (k', ys) \<or> entry \<in> set m" by auto
  with assms show "case entry of (k, xs) \<Rightarrow> set xs \<subseteq> S" by auto
qed

lemma pushTo_members:
  assumes "\<forall>(k, xs) \<in> set m. set xs \<subseteq> S" and "x \<in> S"
  shows "\<forall>(k, xs) \<in> set (pushTo m k' x). set xs \<subseteq> S"
proof (cases "map_of m k'")
  case None
  then have "pushTo m k' x = mapSet (mapSet m k' []) k' [x]"
    by (simp add: pushTo_def mapHas_def mapGet_def Let_def mapSet_absent map_add_def)
  moreover have "\<forall>(k, xs) \<in> set (mapSet (mapSet m k' []) k' [x]). set xs \<subseteq> S"
    using assms by (intro mapSet_members) simp_all
  ultimately show ?thesis by simp
next
  case (Some ys)
  then have "pushTo m k' x = mapSet m k' (ys @ [x])"
    by (simp add: pushTo_def mapHas_def mapGet_def)
  moreover from Some have "(k', ys) \<in> set m" by (rule map_of_SomeD)
  with assms have "set (ys @ [x]) \<subseteq> S" by auto
  with assms(1) have "\<forall>(k, xs) \<in> set (mapSet m k' (ys @ [x])). set xs \<subseteq> S"
    by (rule mapSet_members)
  ultimately show ?thesis by simp
qed

lemma foldl_pushTo_members:
  "\<forall>(k, xs) \<in> set m. set xs \<subseteq> S \<Longrightarrow> set ps \<subseteq> S \<Longrightarrow>
   \<forall>(k, xs) \<in> set (foldl (\<lambda>m punch. pushTo m (employeeId punch) punch) m ps). set xs \<subseteq> S"
proof (induction ps arbitrary: m)
  case Nil
  then show ?case by simp
next
  case (Cons p ps)
  from Cons.prems have "\<forall>(k, xs) \<in> set (pushTo m (employeeId p) p). set xs \<subseteq> S"
    by (intro pushTo_members) auto
  from Cons.IH [OF this] Cons.prems show ?case by simp
qed

lemma groupByEmployee_members:
  "(k, xs) \<in> set (groupByEmployee ps) \<Longrightarrow> set xs \<subseteq> set ps"
  using foldl_pushTo_members [of "[]" "set ps" ps]
  by (auto simp add: groupByEmployee_def)

lemma set_sortByTimestamp: "set (sortByTimestamp ps) = set ps"
  by (simp add: sortByTimestamp_def)

lemma openSessionCheck_cong:
  "openView now1 p = openView now2 p \<Longrightarrow>
   openSessionCheck now1 empId employee p st = openSessionCheck now2 empId employee p st"
  by (simp add: openSessionCheck_def openView_def Let_def split: prod.splits)

lemma scanSessions_cong:
  "\<forall>p \<in> set srt. openView now1 p = openView now2 p \<Longrightarrow>
   scanSessions now1 empId employee srt i st = scanSessions now2 empId employee srt i st"
proof (induction now1 empId employee srt i st rule: scanSessions.induct)
  case (1 now1 empId employee srt i st)
  show ?case
  proof (cases "i < length srt")
    case False
    then show ?thesis
      by (simp add: scanSessions.simps [of _ empId employee srt i st])
  next
    case inb: True
    show ?thesis
    proof (cases "punchType (srt ! i) = PunchIn")
      case False
      from "1.IH"(3) [OF inb False "1.prems"] inb False show ?thesis
        by (simp add: scanSessions.simps [of _ empId employee srt i st])
    next
      case isIn: True
      show ?thesis
      proof (cases "findOut srt (i + 1)")
        case None
        from inb "1.prems" have "openView now1 (srt ! i) = openView now2 (srt ! i)" by simp
        then have "openSessionCheck now1 empId employee (srt ! i) st =
                   openSessionCheck now2 empId employee (srt ! i) st"
          by (rule openSessionCheck_cong)
        with "1.IH"(1) [OF inb isIn None "1.prems"] inb isIn None show ?thesis
          by (simp add: scanSessions.simps [of _ empId employee srt i st])
      next
        case (Some j)
        from "1.IH"(2) [OF inb isIn Some "1.prems"] inb isIn Some show ?thesis
          by (simp add: scanSessions.simps [of _ empId employee srt i st])
      qed
    qed
  qed
qed

lemma employeeExceptions_cong:
  assumes "\<forall>p \<in> set (snd entry). openView now1 p = openView now2 p"
  shows "employeeExceptions h now1 data st entry = employeeExceptions h now2 data st entry"
proof (cases entry)
  case (Pair empId empPunches)
  with assms have "\<forall>p \<in> set (sortByTimestamp empPunches). openView now1 p = openView now2 p"
    by (simp add: set_sortByTimestamp)
  then have "scanSessions now1 empId employee (sortByTimestamp empPunches) 0 st' =
             scanSessions now2 empId employee (sortByTimestamp empPunches) 0 st'"
    for employee st'
    by (rule scanSessions_cong)
  with Pair show ?thesis
    by (simp add: employeeExceptions_def Let_def split: option.splits)
qed

lemma foldl_employeeExceptions_cong:
  "\<forall>entry \<in> set entries. \<forall>p \<in> set (snd entry). openView now1 p = openView now2 p \<Longrightarrow>
   foldl (employeeExceptions h now1 data) st entries =
   foldl (employeeExceptions h now2 data) st entries"
proof (induction entries arbitrary: st)
  case Nil
  show ?case by simp
next
  case (Cons x xs)
  from Cons.prems have "employeeExceptions h now1 data st x = employeeExceptions h now2 data st x"
    by (intro employeeExceptions_cong) simp
  moreover from Cons.prems have
    "foldl (employeeExceptions h now1 data) st' xs = foldl (employeeExceptions h now2 data) st' xs"
    for st'
    by (intro Cons.IH) simp
  ultimately show ?case by simp
qed

lemma calculateExceptions_cong:
  assumes t: "truthy dateStr"
    and v: "\<forall>p \<in> set (dayPunchesOf h now1 data dateStr). openView now1 p = openView now2 p"
  shows "calculateExceptions h now1 data dateStr = calculateExceptions h now2 data dateStr"
proof -
  let ?ps = "dayPunchesOf h now1 data dateStr"
  have d: "dayPunchesOf h now2 data dateStr = ?ps"
    using dayPunchesOf_truthy [OF t] by simp
  have "\<forall>entry \<in> set (groupByEmployee ?ps). \<forall>p \<in> set (snd entry).
          openView now1 p = openView now2 p"
  proof (intro ballI)
    fix entry p
    assume "entry \<in> set (groupByEmployee ?ps)" and "p \<in> set (snd entry)"
    then have "p \<in> set ?ps"
      using groupByEmployee_members [of "fst entry" "snd entry" ?ps] by auto
    with v show "openView now1 p = openView now2 p" by simp
  qed
  then have "foldl (employeeExceptions h now1 data) ([], 1) (groupByEmployee ?ps) =
             foldl (employeeExceptions h now2 data) ([], 1) (groupByEmployee ?ps)"
    by (rule foldl_employeeExceptions_cong)
  then show ?thesis
    by (simp add: calculateExceptions_def d)
qed

lemma calculateKPIs_clock:
  "truthy dateStr \<Longrightarrow>
   (calculateKPIs h now1 data dateStr)\<lparr>serverTimestamp := 0\<rparr> =
   (calculateKPIs h now2 data dateStr)\<lparr>serverTimestamp := 0\<rparr>"
  by (simp add: calculateKPIs_def Let_def dayPunchesOf_truthy [of dateStr h now1 data now2]
        split: prod.splits)

lemma calculateHourlyActivity_clock:
  "truthy dateStr \<Longrightarrow>
   calculateHourlyActivity h now1 data dateStr = calculateHourlyActivity h now2 data dateStr"
  by (simp add: calculateHourlyActivity_def dayPunchesOf_truthy [of dateStr h now1 data now2])

lemma calculateTopWorkload_clock:
  "truthy dateStr \<Longrightarrow>
   calculateTopWorkload h now1 data dateStr limitArg =
   calculateTopWorkload h now2 data dateStr limitArg"
  by (simp add: calculateTopWorkload_def dayPunchesOf_truthy [of dateStr h now1 data now2])

lemma calculateEmployeeShifts_clock:
  "truthy endDate \<or> \<not> truthy startDate \<Longrightarrow>
   calculateEmployeeShifts h now1 data empId startDate endDate =
   calculateEmployeeShifts h now2 data empId startDate endDate"
  by (auto simp add: calculateEmployeeShifts_def filterByRange_def)

text \<open>
  Claim C6, as amended. For a fixed event set and an explicit query date, the KPI
  snapshot (apart from its generation timestamp), the hourly activity and the top
  workload are the same whenever they are run, and so are the employee shifts when
  the end date is explicit or no date range is given; the exceptions are the same
  in two runs whose clocks give every event of the day the same open-session view
  (the same threshold tests and the same rounded hours). The latest locations read
  neither clock nor window.
\<close>

theorem derivations_rerun:
  "(truthy dateStr \<longrightarrow>
      (calculateKPIs h now1 data dateStr)\<lparr>serverTimestamp := 0\<rparr> =
      (calculateKPIs h now2 data dateStr)\<lparr>serverTimestamp := 0\<rparr> \<and>
      calculateHourlyActivity h now1 data dateStr = calculateHourlyActivity h now2 data dateStr \<and>
      calculateTopWorkload h now1 data dateStr limitArg =
      calculateTopWorkload h now2 data dateStr limitArg \<and>
      ((\<forall>p \<in> set (dayPunchesOf h now1 data dateStr). openView now1 p = openView now2 p) \<longrightarrow>
       calculateExceptions h now1 data dateStr = calculateExceptions h now2 data dateStr)) \<and>
   (truthy endDate \<or> \<not> truthy startDate \<longrightarrow>
      calculateEmployeeShifts h now1 data empId startDate endDate =
      calculateEmployeeShifts h now2 data empId startDate endDate)"
  using calculateKPIs_clock [of dateStr h now1 data now2]
    calculateHourlyActivity_clock [of dateStr h now1 data now2]
    calculateTopWorkload_clock [of dateStr h now1 data limitArg now2]
    calculateExceptions_cong [of dateStr h now1 data now2]
    calculateEmployeeShifts_clock [of endDate startDate h now1 data empId now2]
  by blast


text \<open>
  Claim C6 as stated fails for the exceptions: on the same event set and date, a
  run one hour after an unmatched punch in emits nothing, a run nine hours after
  it emits an open-session warning.
\<close>

theorem calculateExceptions_rerun_differs:
  "calculateExceptions utcHost 1769680800000
     (processSheetData utcHost 1769680800000
        [examplePunch ''EMP001'' PunchIn 1769677200000 (Some 25)])
     (Some ''2026-01-29'') = [] \<and>
   calculateExceptions utcHost 1769709600000
     (processSheetData utcHost 1769680800000
        [examplePunch ''EMP001'' PunchIn 1769677200000 (Some 25)])
     (Some ''2026-01-29'') =
   [\<lparr> exc_id = ''EXC00001'', exc_employeeId = ''EMP001'', exc_name = ''John Doe'',
      exc_type = OpenSession, severity = SevWarning, exc_status = StatusOpen,
      exc_timestamp = 1769677200000, locationText = ''Office HQ'', exc_distance = Some 25,
      exc_notes = ''Open session for 9 hours (no punch out)'' \<rparr>]"
  by code_simp

theorem derivations_rerun_witness:
  "truthy (Some ''2026-01-29'') \<and>
   dayPunchesOf utcHost 1769709600000
     (processSheetData utcHost 1769680800000
        [examplePunch ''EMP001'' PunchIn 1769677200000 (Some 25)]) (Some ''2026-01-29'') =
     [examplePunch ''EMP001'' PunchIn 1769677200000 (Some 25)] \<and>
   openView 1769709600000 (examplePunch ''EMP001'' PunchIn 1769677200000 (Some 25)) =
   openView 1769710200000 (examplePunch ''EMP001'' PunchIn 1769677200000 (Some 25)) \<and>
   calculateExceptions utcHost 1769709600000
     (processSheetData utcHost 1769680800000
        [examplePunch ''EMP001'' PunchIn 1769677200000 (Some 25)]) (Some ''2026-01-29'') =
   calculateExceptions utcHost 1769710200000
     (processSheetData utcHost 1769680800000
        [examplePunch ''EMP001'' PunchIn 1769677200000 (Some 25)]) (Some ''2026-01-29'') \<and>
   (calculateKPIs utcHost 1769709600000
     (processSheetData utcHost 1769680800000
        [examplePunch ''EMP001'' PunchIn 1769677200000 (Some 25)])
     (Some ''2026-01-29''))\<lparr>serverTimestamp := 0\<rparr> =
   (calculateKPIs utcHost 1769710200000
     (processSheetData utcHost 1769680800000
        [examplePunch ''EMP001'' PunchIn 1769677200000 (Some 25)])
     (Some ''2026-01-29''))\<lparr>serverTimestamp := 0\<rparr> \<and>
   calculateEmployeeShifts utcHost 1769709600000
     (processSheetData utcHost 1769680800000
        [examplePunch ''EMP001'' PunchIn 1769677200000 (Some 25)])
     ''EMP001'' (Some ''2026-01-29'') (Some ''2026-01-29'') =
   calculateEmployeeShifts utcHost 1769710200000
     (processSheetData utcHost 1769680800000
        [examplePunch ''EMP001'' PunchIn 1769677200000 (Some 25)])
     ''EMP001'' (Some ''2026-01-29'') (Some ''2026-01-29'')"
proof -
  let ?p = "examplePunch ''EMP001'' PunchIn 1769677200000 (Some 25)"
  let ?data = "processSheetData utcHost 1769680800000 [?p]"
  let ?d = "Some ''2026-01-29''"
  have t: "truthy ?d" by (simp add: truthy_def)
  have dp: "dayPunchesOf utcHost 1769709600000 ?data ?d = [?p]" by code_simp
  have ov: "openView 1769709600000 ?p = openView 1769710200000 ?p" by code_simp
  from dp ov have
    a: "\<forall>p \<in> set (dayPunchesOf utcHost 1769709600000 ?data ?d).
          openView 1769709600000 p = openView 1769710200000 p"
    by simp
  note r = derivations_rerun [where dateStr = ?d and h = utcHost and ?now1.0 = 1769709600000
      and ?now2.0 = 1769710200000 and data = ?data and endDate = ?d and startDate = ?d
      and empId = "''EMP001''"]
  from r t a have
    "calculateExceptions utcHost 1769709600000 ?data ?d =
     calculateExceptions utcHost 1769710200000 ?data ?d"
    by blast
  moreover from r t have
    "(calculateKPIs utcHost 1769709600000 ?data ?d)\<lparr>serverTimestamp := 0\<rparr> =
     (calculateKPIs utcHost 1769710200000 ?data ?d)\<lparr>serverTimestamp := 0\<rparr>"
    by blast
  moreover from r t have
    "calculateEmployeeShifts utcHost 1769709600000 ?data ''EMP001'' ?d ?d =
     calculateEmployeeShifts utcHost 1769710200000 ?data ''EMP001'' ?d ?d"
    by blast
  ultimately show ?thesis using t dp ov by blast
qed


section \<open>Open sessions\<close>

subsection \<open>Grouping by employee\<close>

lemma map_of_mapSet: "map_of (mapSet m k v) = (map_of m)(k \<mapsto> v)"
  by (induction m) (auto simp add: fun_eq_iff)

lemma map_fst_mapSet:
  "map fst (mapSet m k v) = (if k \<in> set (map fst m) then map fst m else map fst m @ [k])"
proof (induction m)
  case Nil
  show ?case by simp
next
  case (Cons a m)
  have "(k, w) \<in> set m \<Longrightarrow> k \<in> fst ` set m" for w by force
  with Cons show ?case by (cases a) auto
qed

lemma distinct_mapSet: "distinct (map fst m) \<Longrightarrow> distinct (map fst (mapSet m k v))"
  by (simp add: map_fst_mapSet)

lemma pushTo_eq:
  "pushTo m k x = mapSet (case map_of m k of None \<Rightarrow> mapSet m k [] | Some xs \<Rightarrow> m) k
     (case map_of m k of None \<Rightarrow> [x] | Some xs \<Rightarrow> xs @ [x])"
  by (simp add: pushTo_def mapHas_def mapGet_def Let_def map_of_mapSet split: option.splits)

lemma map_of_pushTo:
  "map_of (pushTo m k x) =
     (map_of m)(k \<mapsto> (case map_of m k of None \<Rightarrow> [x] | Some xs \<Rightarrow> xs @ [x]))"
  by (simp add: pushTo_eq map_of_mapSet split: option.splits)

lemma distinct_pushTo: "distinct (map fst m) \<Longrightarrow> distinct (map fst (pushTo m k x))"
  by (simp add: pushTo_eq distinct_mapSet split: option.splits)

lemma groupByEmployee_snoc:
  "groupByEmployee (ps @ [p]) = pushTo (groupByEmployee ps) (employeeId p) p"
  by (simp add: groupByEmployee_def)

lemma distinct_groupByEmployee: "distinct (map fst (groupByEmployee ps))"
proof (induction ps rule: rev_induct)
  case Nil
  show ?case by (simp add: groupByEmployee_def)
next
  case (snoc p ps)
  then show ?case by (simp add: groupByEmployee_snoc distinct_pushTo)
qed

lemma map_of_groupByEmployee:
  "map_of (groupByEmployee ps) k =
     (if k \<in> employeeId ` set ps then Some (filter (\<lambda>q. employeeId q = k) ps) else None)"
proof (induction ps rule: rev_induct)
  case Nil
  show ?case by (simp add: groupByEmployee_def)
next
  case (snoc p ps)
  show ?case
  proof (cases "k = employeeId p")
    case False
    with snoc show ?thesis by (simp add: groupByEmployee_snoc map_of_pushTo)
  next
    case k: True
    show ?thesis
    proof (cases "k \<in> employeeId ` set ps")
      case True
      with snoc k show ?thesis by (simp add: groupByEmployee_snoc map_of_pushTo)
    next
      case False
      then have "filter (\<lambda>q. employeeId q = k) ps = []"
        by (auto simp add: filter_empty_conv)
      with False snoc k show ?thesis by (simp add: groupByEmployee_snoc map_of_pushTo)
    qed
  qed
qed

lemma groupByEmployee_entry:
  "(k, xs) \<in> set (groupByEmployee ps) \<longleftrightarrow>
     k \<in> employeeId ` set ps \<and> xs = filter (\<lambda>q. employeeId q = k) ps"
  using map_of_eq_Some_iff [OF distinct_groupByEmployee, of ps k xs]
  by (auto simp add: map_of_groupByEmployee split: if_splits)

subsection \<open>Unmatched punch ins\<close>






subsection \<open>Counting the exceptions of the open-session rule\<close>











subsection \<open>Severity of the exceptions of the open-session rule\<close>










subsection \<open>The open-session rule\<close>









section \<open>Top workload\<close>
















end
